theory Spec2Isabelle
  imports Main "HOL-Library.Word"
begin

unbundle bit_operations_syntax

section \<open>Common Go notions\<close>

type_synonym byte = "8 word"

text \<open>
  A Go call either returns or panics. Functions of the source that can panic (a nil
  dereference, an index out of range, an explicit \<open>panic\<close>) return a value of this type.
\<close>

datatype 'a go = Returns 'a | Panics string

text \<open>Sequencing: a panic of the first call ends the function.\<close>

definition bind_go :: "'a go \<Rightarrow> ('a \<Rightarrow> 'b go) \<Rightarrow> 'b go" where
  "bind_go m f = (case m of Panics e \<Rightarrow> Panics e | Returns x \<Rightarrow> f x)"

text \<open>
  Go \<open>error\<close> values. \<open>errors_New msg\<close> is \<open>errors.New(msg)\<close>;
  \<open>fmt_Errorf prefix err\<close> is \<open>fmt.Errorf(prefix + "%w", err)\<close>, an error that wraps
  \<open>err\<close>. A function of result type \<open>error\<close> returns \<open>error option\<close>, with \<open>None\<close>
  for \<open>nil\<close>.
\<close>

datatype error = errors_New string | fmt_Errorf string error

section \<open>Package block: the block header (header.go)\<close>

text \<open>
  \<open>common.Namespace\<close> and \<open>hash.Hash\<close> are fixed-size byte arrays declared outside this
  file; the source only compares them bytewise (\<open>Namespace.Equal\<close>, \<open>bytes.Equal(v[:], ...)\<close>),
  so they are byte lists here and both comparisons are list equality. The types of the
  roothash messages and of the signatures are declared elsewhere too and are type
  parameters \<open>'msg\<close> and \<open>'sig\<close>. \<open>HeaderType\<close> is a \<open>uint8\<close>.

  The canonical encoding of a header, and so its hash, tells a \<open>nil\<close> slice from an empty
  one. \<open>RoothashMessages\<close> is therefore an optional list, with \<open>None\<close> for \<open>nil\<close>.
  \<open>StorageSignatures\<close> is the list of the slice's elements: the functions of this file
  only range over it, where \<open>nil\<close> and empty are alike, or replace it by the empty slice
  \<open>[]signature.Signature{}\<close> before the header is encoded, and that slice is \<open>[]\<close>.
\<close>

type_synonym Namespace = "byte list"
type_synonym Hash = "byte list"
type_synonym HeaderType = "8 word"

definition Normal :: HeaderType where "Normal = 0"
definition RoundFailed :: HeaderType where "RoundFailed = 1"
definition EpochTransition :: HeaderType where "EpochTransition = 2"

record ('msg, 'sig) Header =
  Version :: "16 word"
  Namespace :: Namespace
  Round :: "64 word"
  Timestamp :: "64 word"
  HeaderType :: HeaderType
  PreviousHash :: Hash
  IORoot :: Hash
  StateRoot :: Hash
  RoothashMessages :: "'msg list option"
  StorageSignatures :: "'sig list"

text \<open>
  \<open>storage.ReceiptBody\<close>, by the fields the source sets and reads. Its fields carry the
  prefix \<open>rb_\<close>, since three of them have the names of fields of \<open>Header\<close>.
\<close>

record ReceiptBody =
  rb_Version :: "16 word"
  rb_Namespace :: Namespace
  rb_Round :: "64 word"
  rb_Roots :: "Hash list"

text \<open>\<open>RootsForStorageReceipt\<close>: the I/O root, then the state root.\<close>

definition RootsForStorageReceipt :: "('msg, 'sig) Header \<Rightarrow> Hash list" where
  "RootsForStorageReceipt h = [IORoot h, StateRoot h]"

subsection \<open>VerifyStorageReceipt\<close>

text \<open>
  The loop \<open>for idx, v := range roots\<close> of \<open>VerifyStorageReceipt\<close>, from index \<open>idx\<close> on.
  \<open>receipt.Roots[idx]\<close> panics in Go when \<open>idx\<close> is out of range. The header and the
  receipt are the objects behind the two pointers, which are taken not to be \<open>nil\<close>.
\<close>

fun verifyRootsLoop :: "Hash list \<Rightarrow> Hash list \<Rightarrow> nat \<Rightarrow> error option go" where
  "verifyRootsLoop [] rs idx = Returns None"
| "verifyRootsLoop (v # vs) rs idx =
     (if idx < length rs then
        (if v \<noteq> rs ! idx then Returns (Some (errors_New ''roothash: receipt has unexpected roots''))
         else verifyRootsLoop vs rs (Suc idx))
      else Panics ''index out of range'')"

definition VerifyStorageReceipt :: "('msg, 'sig) Header \<Rightarrow> ReceiptBody \<Rightarrow> error option go" where
  "VerifyStorageReceipt h receipt =
     (if rb_Namespace receipt \<noteq> Namespace h then
        Returns (Some (errors_New ''roothash: receipt has unexpected namespace''))
      else if rb_Round receipt \<noteq> Round h then
        Returns (Some (errors_New ''roothash: receipt has unexpected round''))
      else
        (let roots = RootsForStorageReceipt h in
         if length (rb_Roots receipt) \<noteq> length roots then
           Returns (Some (errors_New ''roothash: receipt has unexpected number of roots''))
         else verifyRootsLoop roots (rb_Roots receipt) 0))"

subsection \<open>VerifyStorageReceiptSignatures\<close>

text \<open>
  \<open>storage.Receipt\<close> embeds \<open>signature.Signed\<close>; the source sets its fields
  \<open>receipt.Signed.Blob\<close> and \<open>receipt.Signed.Signature\<close>.
\<close>

record 'sig Receipt =
  Signed_Blob :: "byte list"
  Signed_Signature :: 'sig

text \<open>
  \<open>ReceiptBody.MarshalCBOR\<close> and \<open>Receipt.Open\<close> belong to other packages. They are
  parameters of the model: \<open>MarshalCBOR\<close> maps a receipt body to its canonical encoding,
  \<open>Open\<close> maps a receipt to \<open>None\<close> when its signature opens and to the error otherwise.
  Every call of either is recorded, in order, in a log that the model returns with the
  result, so that what is encoded and which receipts are opened can be stated.
\<close>

datatype 'sig call = Call_MarshalCBOR ReceiptBody | Call_Open "'sig Receipt"

text \<open>The loop \<open>for _, sig := range h.StorageSignatures\<close>.\<close>

fun openLoop ::
  "('sig Receipt \<Rightarrow> error option) \<Rightarrow> byte list \<Rightarrow> 'sig list \<Rightarrow> 'sig call list \<Rightarrow>
     error option \<times> 'sig call list" where
  "openLoop Open blob [] log = (None, log)"
| "openLoop Open blob (sig # sigs) log =
     (let receipt = \<lparr>Signed_Blob = blob, Signed_Signature = sig\<rparr>;
          log' = log @ [Call_Open receipt]
      in case Open receipt of
           Some err \<Rightarrow> (Some err, log')
         | None \<Rightarrow> openLoop Open blob sigs log')"

definition VerifyStorageReceiptSignatures ::
  "(ReceiptBody \<Rightarrow> byte list) \<Rightarrow> ('sig Receipt \<Rightarrow> error option) \<Rightarrow> ('msg, 'sig) Header \<Rightarrow>
     error option \<times> 'sig call list" where
  "VerifyStorageReceiptSignatures MarshalCBOR Open h =
     (let receiptBody = \<lparr>rb_Version = 1, rb_Namespace = Namespace h, rb_Round = Round h,
                          rb_Roots = RootsForStorageReceipt h\<rparr>;
          blob = MarshalCBOR receiptBody
      in openLoop Open blob (StorageSignatures h) [Call_MarshalCBOR receiptBody])"

text \<open>The receipt bodies encoded and the receipts opened, read off a log.\<close>

fun marshalled :: "'sig call list \<Rightarrow> ReceiptBody list" where
  "marshalled [] = []"
| "marshalled (Call_MarshalCBOR b # cs) = b # marshalled cs"
| "marshalled (Call_Open r # cs) = marshalled cs"

fun opened :: "'sig call list \<Rightarrow> 'sig Receipt list" where
  "opened [] = []"
| "opened (Call_MarshalCBOR b # cs) = opened cs"
| "opened (Call_Open r # cs) = r # opened cs"

subsection \<open>EncodedHash and MostlyEqual\<close>

text \<open>
  The methods of \<open>Header\<close> have pointer receivers. \<open>MostlyEqual\<close> is the only one that
  assigns to a header field, so it is modelled on an explicit store of header objects:
  an address is an index into the store, \<open>a, b := *h, *cmp\<close> allocates two new objects
  holding copies, and the assignments to \<open>StorageSignatures\<close> update those.
\<close>

type_synonym ('msg, 'sig) store = "('msg, 'sig) Header list"

datatype ptr = nil | Ptr nat

definition deref :: "('msg, 'sig) store \<Rightarrow> ptr \<Rightarrow> ('msg, 'sig) Header go" where
  "deref s p =
     (case p of
        nil \<Rightarrow> Panics ''invalid memory address or nil pointer dereference''
      | Ptr a \<Rightarrow> if a < length s then Returns (s ! a)
                 else Panics ''invalid memory address or nil pointer dereference'')"

text \<open>
  \<open>EncodedHash\<close> is \<open>hh.From(h)\<close>: the hash of the canonical encoding of what the pointer
  \<open>h\<close> leads to. \<open>hash.Hash.From\<close> belongs to another package and is the parameter \<open>From\<close>;
  it is given the pointer and does not panic on \<open>nil\<close>, so its argument here is \<open>None\<close>
  for the \<open>nil\<close> pointer and the header otherwise.
\<close>

definition EncodedHash ::
  "(('msg, 'sig) Header option \<Rightarrow> Hash) \<Rightarrow> ('msg, 'sig) store \<Rightarrow> ptr \<Rightarrow> Hash go" where
  "EncodedHash From s h =
     (case h of
        nil \<Rightarrow> Returns (From None)
      | Ptr a \<Rightarrow> bind_go (deref s h) (\<lambda>hv. Returns (From (Some hv))))"

definition MostlyEqual ::
  "(('msg, 'sig) Header option \<Rightarrow> Hash) \<Rightarrow> ('msg, 'sig) store \<Rightarrow> ptr \<Rightarrow> ptr \<Rightarrow>
     (bool \<times> ('msg, 'sig) store) go" where
  "MostlyEqual From s h cmp =
     bind_go (deref s h) (\<lambda>hv.
     bind_go (deref s cmp) (\<lambda>cv.
       let a = length s; s1 = s @ [hv];
           b = length s1; s2 = s1 @ [cv];
           s3 = s2[a := (s2 ! a)\<lparr>StorageSignatures := []\<rparr>];
           s4 = s3[b := (s3 ! b)\<lparr>StorageSignatures := []\<rparr>]
       in bind_go (EncodedHash From s4 (Ptr a)) (\<lambda>aHash.
          bind_go (EncodedHash From s4 (Ptr b)) (\<lambda>bHash.
            Returns (aHash = bHash, s4)))))"

section \<open>Package node: transport addresses (second part of header.go)\<close>

definition ErrInvalidAddress :: error where
  "ErrInvalidAddress = errors_New ''node: invalid transport address''"

definition ErrConsensusAddressNoID :: error where
  "ErrConsensusAddressNoID =
     errors_New (''node: consensus address doesn'' @ [CHR 0x27] @ ''t have ID@ part'')"

subsection \<open>The functions of Go's package net that the source calls\<close>

text \<open>
  \<open>net.IP\<close> is a byte slice: 4 bytes for an IPv4 address, 16 bytes for an IPv6 address or
  for an IPv4 address in its IPv4-mapped form \<open>::ffff:a.b.c.d\<close>. \<open>To4\<close> and \<open>To16\<close>
  return \<open>nil\<close> when the conversion is impossible; \<open>nil\<close> is \<open>None\<close> here.
\<close>

type_synonym IP = "byte list"

definition v4InV6Prefix :: "byte list" where
  "v4InV6Prefix = [0, 0, 0, 0, 0, 0, 0, 0, 0, 0, 0xff, 0xff]"

definition IPv4 :: "byte \<Rightarrow> byte \<Rightarrow> byte \<Rightarrow> byte \<Rightarrow> IP" where
  "IPv4 a b c d = v4InV6Prefix @ [a, b, c, d]"

definition isZeros :: "byte list \<Rightarrow> bool" where
  "isZeros p = list_all (\<lambda>b. b = 0) p"

definition To4 :: "IP \<Rightarrow> IP option" where
  "To4 ip =
     (if length ip = 4 then Some ip
      else if length ip = 16 \<and> isZeros (take 10 ip) \<and> ip ! 10 = 0xff \<and> ip ! 11 = 0xff
        then Some (drop 12 ip)
      else None)"

definition To16 :: "IP \<Rightarrow> IP option" where
  "To16 ip =
     (if length ip = 4 then Some (IPv4 (ip ! 0) (ip ! 1) (ip ! 2) (ip ! 3))
      else if length ip = 16 then Some ip
      else None)"

text \<open>
  \<open>IP.Equal\<close>: an IPv4 address and the same address in IPv4-mapped form are equal.
\<close>

definition IP_Equal :: "IP \<Rightarrow> IP \<Rightarrow> bool" where
  "IP_Equal ip x =
     (if length ip = length x then ip = x
      else if length ip = 4 \<and> length x = 16 then take 12 x = v4InV6Prefix \<and> ip = drop 12 x
      else if length ip = 16 \<and> length x = 4 then take 12 ip = v4InV6Prefix \<and> drop 12 ip = x
      else False)"

text \<open>\<open>net.IPNet\<close>: a network number and a mask.\<close>

record IPNet =
  net_IP :: IP
  net_Mask :: "byte list"

text \<open>\<open>CIDRMask ones bits\<close>, for \<open>l = bits / 8\<close> bytes: \<open>ones\<close> one bits, then zero bits.\<close>

fun CIDRMask_bytes :: "nat \<Rightarrow> nat \<Rightarrow> byte list" where
  "CIDRMask_bytes n 0 = []"
| "CIDRMask_bytes n (Suc l) =
     (if n \<ge> 8 then 0xff # CIDRMask_bytes (n - 8) l
      else NOT (drop_bit n 0xff) # CIDRMask_bytes 0 l)"

definition CIDRMask :: "nat \<Rightarrow> nat \<Rightarrow> byte list option" where
  "CIDRMask ones bits =
     (if bits \<noteq> 8 * 4 \<and> bits \<noteq> 8 * 16 then None
      else if ones > bits then None
      else Some (CIDRMask_bytes ones (bits div 8)))"

text \<open>\<open>IP.Mask\<close>, for an address and a mask of the same length.\<close>

definition IP_Mask :: "IP \<Rightarrow> byte list \<Rightarrow> IP option" where
  "IP_Mask ip m =
     (if length ip \<noteq> length m then None
      else Some (map (\<lambda>(b, c). b AND c) (zip ip m)))"

text \<open>
  \<open>strings.Split(s, sep)\<close> for a separator of one byte: the pieces of \<open>s\<close> between the
  occurrences of \<open>sep\<close>, one more than there are occurrences.
\<close>

fun strings_Split :: "string \<Rightarrow> char \<Rightarrow> string list" where
  "strings_Split [] sep = [[]]"
| "strings_Split (c # cs) sep =
     (if c = sep then [] # strings_Split cs sep
      else (case strings_Split cs sep of
              [] \<Rightarrow> [[c]]
            | x # xs \<Rightarrow> (c # x) # xs))"

text \<open>
  \<open>net.ParseCIDR\<close>: an IPv4 address as four decimal fields of value at most 255 and
  without a leading zero, or an IPv6 address as groups of one to four hexadecimal
  digits with at most one \<open>::\<close>, whose last 32 bits may be written as a dotted IPv4
  address; then \<open>/\<close> and the decimal prefix length. A zone is refused. The result is
  the network: the address masked (4 bytes for IPv4, 16 for IPv6) and the mask.
\<close>

definition digit_value :: "char \<Rightarrow> nat option" where
  "digit_value c =
     (let n = of_char c :: nat in
      if 48 \<le> n \<and> n \<le> 57 then Some (n - 48)
      else if 97 \<le> n \<and> n \<le> 102 then Some (n - 87)
      else if 65 \<le> n \<and> n \<le> 70 then Some (n - 55)
      else None)"

fun number_acc :: "nat \<Rightarrow> nat \<Rightarrow> string \<Rightarrow> nat option" where
  "number_acc base n [] = Some n"
| "number_acc base n (c # cs) =
     (case digit_value c of
        None \<Rightarrow> None
      | Some d \<Rightarrow> if d < base then number_acc base (base * n + d) cs else None)"

definition dtoi :: "string \<Rightarrow> nat option" where
  "dtoi s = (if s = [] then None else number_acc 10 0 s)"

definition xtoi :: "string \<Rightarrow> nat option" where
  "xtoi s = (if s = [] \<or> length s > 4 then None else number_acc 16 0 s)"

fun sequence_option :: "'a option list \<Rightarrow> 'a list option" where
  "sequence_option [] = Some []"
| "sequence_option (None # xs) = None"
| "sequence_option (Some x # xs) = map_option ((#) x) (sequence_option xs)"

definition ipv4_field :: "string \<Rightarrow> nat option" where
  "ipv4_field s =
     (if length s > 1 \<and> hd s = CHR ''0'' then None
      else (case dtoi s of
              None \<Rightarrow> None
            | Some n \<Rightarrow> if n \<le> 255 then Some n else None))"

definition parseIPv4 :: "string \<Rightarrow> IP option" where
  "parseIPv4 s =
     (case sequence_option (map ipv4_field (strings_Split s CHR ''.'')) of
        Some [a, b, c, d] \<Rightarrow> Some [of_nat a, of_nat b, of_nat c, of_nat d]
      | _ \<Rightarrow> None)"

fun split_ellipsis :: "string \<Rightarrow> (string \<times> string) option" where
  "split_ellipsis (c # d # cs) =
     (if c = CHR '':'' \<and> d = CHR '':'' then Some ([], cs)
      else map_option (\<lambda>(l, r). (c # l, r)) (split_ellipsis (d # cs)))"
| "split_ellipsis cs = None"

text \<open>
  The 16-bit groups of a piece of an IPv6 address; \<open>v4tail\<close> tells whether the piece
  ends the address, where its last group may be a dotted IPv4 address, worth two groups.
\<close>

definition hex_groups :: "bool \<Rightarrow> string \<Rightarrow> nat list option" where
  "hex_groups v4tail s =
     (if s = [] then Some []
      else
        (let gs = strings_Split s CHR '':'' in
         if v4tail \<and> CHR ''.'' \<in> set (last gs) then
           (case (sequence_option (map xtoi (butlast gs)), parseIPv4 (last gs)) of
              (Some hs, Some [a, b, c, d]) \<Rightarrow>
                Some (hs @ [unat a * 256 + unat b, unat c * 256 + unat d])
            | _ \<Rightarrow> None)
         else sequence_option (map xtoi gs)))"

definition group_bytes :: "nat \<Rightarrow> byte list" where
  "group_bytes g = [of_nat (g div 256), of_nat (g mod 256)]"

definition parseIPv6 :: "string \<Rightarrow> IP option" where
  "parseIPv6 s =
     (case split_ellipsis s of
        None \<Rightarrow>
          (case hex_groups True s of
             Some gs \<Rightarrow> if length gs = 8 then Some (concat (map group_bytes gs)) else None
           | None \<Rightarrow> None)
      | Some (l, r) \<Rightarrow>
          (case (hex_groups False l, hex_groups True r) of
             (Some ls, Some rs) \<Rightarrow>
               if length ls + length rs < 8
               then Some (concat (map group_bytes
                      (ls @ replicate (8 - length ls - length rs) 0 @ rs)))
               else None
           | _ \<Rightarrow> None))"

definition ParseCIDR :: "string \<Rightarrow> error + IPNet" where
  "ParseCIDR s =
     (case strings_Split s CHR ''/'' of
        [addr, prefix_len] \<Rightarrow>
          (case (case parseIPv4 addr of Some ip \<Rightarrow> Some ip | None \<Rightarrow> parseIPv6 addr) of
             None \<Rightarrow> Inl (errors_New (''invalid CIDR address: '' @ s))
           | Some ip \<Rightarrow>
               (case dtoi prefix_len of
                  None \<Rightarrow> Inl (errors_New (''invalid CIDR address: '' @ s))
                | Some n \<Rightarrow>
                    (case CIDRMask n (8 * length ip) of
                       None \<Rightarrow> Inl (errors_New (''invalid CIDR address: '' @ s))
                     | Some m \<Rightarrow>
                         (case IP_Mask ip m of
                            None \<Rightarrow> Inl (errors_New (''invalid CIDR address: '' @ s))
                          | Some nn \<Rightarrow> Inr \<lparr>net_IP = nn, net_Mask = m\<rparr>))))
      | _ \<Rightarrow> Inl (errors_New (''invalid CIDR address: '' @ s)))"

text \<open>
  \<open>IPNet.Contains\<close>. \<open>networkNumberAndMask\<close> returns \<open>(nil, nil)\<close> for a network that is
  not well formed, otherwise a network number and a mask of the same length; the loop
  compares the masked bytes.
\<close>

definition networkNumberAndMask :: "IPNet \<Rightarrow> IP \<times> byte list" where
  "networkNumberAndMask n =
     (case (case To4 (net_IP n) of
              Some ip \<Rightarrow> Some ip
            | None \<Rightarrow> if length (net_IP n) \<noteq> 16 then None else Some (net_IP n)) of
        None \<Rightarrow> ([], [])
      | Some ip \<Rightarrow>
          if length (net_Mask n) = 4 then
            (if length ip \<noteq> 4 then ([], []) else (ip, net_Mask n))
          else if length (net_Mask n) = 16 then
            (if length ip = 4 then (ip, drop 12 (net_Mask n)) else (ip, net_Mask n))
          else ([], []))"

fun containsLoop :: "byte list \<Rightarrow> byte list \<Rightarrow> byte list \<Rightarrow> bool" where
  "containsLoop (a # nn) (b # m) (c # ip) =
     (if a AND b \<noteq> c AND b then False else containsLoop nn m ip)"
| "containsLoop nn m ip = True"

definition Contains :: "IPNet \<Rightarrow> IP \<Rightarrow> bool" where
  "Contains n ip0 =
     (let (nn, m) = networkNumberAndMask n;
          ip = (case To4 ip0 of Some x \<Rightarrow> x | None \<Rightarrow> ip0)
      in if length ip \<noteq> length nn then False else containsLoop nn m ip)"

subsection \<open>Address\<close>

text \<open>\<open>Address\<close> embeds \<open>net.TCPAddr\<close>: an IP, a port (a Go \<open>int\<close>) and an IPv6 zone.\<close>

record Address =
  IP :: IP
  Port :: int
  Zone :: string

text \<open>
  The table of unroutable networks. \<open>init\<close> parses each entry and appends the network
  to \<open>unroutableNetworks\<close>; it panics when an entry does not parse.
\<close>

definition reserved_networks :: "string list" where
  "reserved_networks =
     [''0.0.0.0/8'',
      ''10.0.0.0/8'',
      ''100.64.0.0/10'',
      ''127.0.0.0/8'',
      ''169.254.0.0/16'',
      ''172.16.0.0/12'',
      ''192.0.0.0/24'',
      ''192.0.0.0/29'',
      ''192.0.2.0/24'',
      ''192.168.0.0/16'',
      ''192.18.0.0/15'',
      ''198.51.100.0/24'',
      ''203.0.113.0/24'',
      ''240.0.0.0/4'',
      ''255.255.255.255/32'',
      ''::1/128'',
      ''::/128'',
      ''100::/64'',
      ''2001::/32'',
      ''2001:2::/48'',
      ''2001:db8::/32'',
      ''2001:10::/28'',
      ''2002::/16'',
      ''fc00::/7'',
      ''fe80::/10'']"

fun Error :: "error \<Rightarrow> string" where
  "Error (errors_New msg) = msg"
| "Error (fmt_Errorf prefix err) = prefix @ Error err"

fun init_loop :: "string list \<Rightarrow> IPNet list \<Rightarrow> IPNet list go" where
  "init_loop [] unroutableNetworks = Returns unroutableNetworks"
| "init_loop (v # vs) unroutableNetworks =
     (case ParseCIDR v of
        Inl err \<Rightarrow> Panics (''node: failed to parse reserved net: '' @ Error err)
      | Inr ipNet \<Rightarrow> init_loop vs (unroutableNetworks @ [ipNet]))"

definition init :: "IPNet list go" where
  "init = init_loop reserved_networks []"

text \<open>The package variable \<open>unroutableNetworks\<close> once \<open>init\<close> has run.\<close>

definition unroutableNetworks :: "IPNet list" where
  "unroutableNetworks = (case init of Returns nets \<Rightarrow> nets | Panics msg \<Rightarrow> [])"

text \<open>
  The benchmarking range that RFC 2544 reserves, as RFC 6890 lists it. The comments of
  \<open>init\<close> name RFC 6890 as the origin of the table and RFC 2544 at its eleventh entry.
\<close>

definition RFC2544_benchmarking :: string where
  "RFC2544_benchmarking = ''198.18.0.0/15''"

text \<open>
  \<open>IsRoutable\<close> reads the package variable \<open>unroutableNetworks\<close>, its first argument here.
\<close>

fun IsRoutable :: "IPNet list \<Rightarrow> Address \<Rightarrow> bool" where
  "IsRoutable [] a = True"
| "IsRoutable (v # vs) a = (if Contains v (IP a) then False else IsRoutable vs a)"

text \<open>\<open>Address.UnmarshalText\<close>; \<open>net.ResolveTCPAddr\<close> is a parameter.\<close>

definition Address_UnmarshalText ::
  "(string \<Rightarrow> string \<Rightarrow> error + Address) \<Rightarrow> Address \<Rightarrow> string \<Rightarrow> error option \<times> Address" where
  "Address_UnmarshalText ResolveTCPAddr a text =
     (case ResolveTCPAddr [] text of
        Inl err \<Rightarrow> (Some err, a)
      | Inr tcpAddr \<Rightarrow> (None, tcpAddr))"

text \<open>\<open>Address.FromIP\<close>, with a port of type \<open>uint16\<close>.\<close>

definition FromIP :: "Address \<Rightarrow> IP \<Rightarrow> 16 word \<Rightarrow> error option \<times> Address" where
  "FromIP a ip port =
     (case To4 ip of
        Some ipv4 \<Rightarrow> (None, a\<lparr>IP := ipv4, Port := uint port, Zone := []\<rparr>)
      | None \<Rightarrow>
          (case To16 ip of
             Some ipv6 \<Rightarrow> (None, a\<lparr>IP := ipv6, Port := uint port, Zone := []\<rparr>)
           | None \<Rightarrow> (Some ErrInvalidAddress, a)))"

subsection \<open>Protocol buffer addresses\<close>

text \<open>
  \<open>pbCommon.Address\<close> is generated code of another package: a transport tag, the raw
  address bytes and a port of type \<open>uint32\<close>. A tag received from the wire can be
  neither of the two that the source names. The getters \<open>GetTransport\<close>, \<open>GetAddress\<close>
  and \<open>GetPort\<close> read the fields of a message that is not \<open>nil\<close>.
\<close>

datatype Address_Transport = Address_TCPv4 | Address_TCPv6 | Address_Transport_other int

record pbAddress =
  pb_Transport :: Address_Transport
  pb_Address :: "byte list"
  pb_Port :: "32 word"

definition parseProtoAddress :: "pbAddress \<Rightarrow> error + Address" where
  "parseProtoAddress pb =
     (case (case pb_Transport pb of
              Address_TCPv4 \<Rightarrow> Some 4
            | Address_TCPv6 \<Rightarrow> Some 16
            | Address_Transport_other t \<Rightarrow> None) of
        None \<Rightarrow> Inl ErrInvalidAddress
      | Some ipLen \<Rightarrow>
          (let rawIP = pb_Address pb in
           if length rawIP \<noteq> ipLen then Inl ErrInvalidAddress
           else
             (let rawPort = pb_Port pb in
              if rawPort > 65535 then Inl ErrInvalidAddress
              else Inr \<lparr>IP = rawIP, Port = uint rawPort, Zone = []\<rparr>)))"

text \<open>
  \<open>toProtoAddress\<close>. The conversion \<open>uint32(addr.Port)\<close> keeps the low 32 bits of the
  port.
\<close>

definition toProtoAddress :: "Address \<Rightarrow> pbAddress go" where
  "toProtoAddress addr =
     (case To4 (IP addr) of
        Some rawIP \<Rightarrow>
          Returns \<lparr>pb_Transport = Address_TCPv4, pb_Address = [] @ rawIP,
                   pb_Port = word_of_int (Port addr)\<rparr>
      | None \<Rightarrow>
          (case To16 (IP addr) of
             Some rawIP \<Rightarrow>
               Returns \<lparr>pb_Transport = Address_TCPv6, pb_Address = [] @ rawIP,
                        pb_Port = word_of_int (Port addr)\<rparr>
           | None \<Rightarrow> Panics ''node: address is neither IPv4 nor IPv6''))"

subsection \<open>ConsensusAddress\<close>

text \<open>
  The type of the identity, \<open>signature.PublicKey\<close>, and its method \<open>UnmarshalHex\<close> belong
  to another package: a type parameter and a parameter.
\<close>

record 'pk ConsensusAddress =
  ca_ID :: 'pk
  ca_Address :: Address

text \<open>
  \<open>ConsensusAddress.UnmarshalText\<close> returns the error and the consensus address as the
  call leaves it: the identity is assigned before the address is parsed.
\<close>

definition ConsensusAddress_UnmarshalText ::
  "(string \<Rightarrow> error + 'pk) \<Rightarrow> (string \<Rightarrow> string \<Rightarrow> error + Address) \<Rightarrow>
     'pk ConsensusAddress \<Rightarrow> string \<Rightarrow> error option \<times> 'pk ConsensusAddress" where
  "ConsensusAddress_UnmarshalText UnmarshalHex ResolveTCPAddr ca text =
     (let spl = strings_Split text CHR ''@'' in
      if length spl \<noteq> 2 then (Some ErrConsensusAddressNoID, ca)
      else
        (case UnmarshalHex (spl ! 0) of
           Inl err \<Rightarrow>
             (Some (fmt_Errorf
                (''node: unable to parse consensus address'' @ [CHR 0x27] @ '' ID: '') err), ca)
         | Inr k \<Rightarrow>
             (let ca1 = ca\<lparr>ca_ID := k\<rparr>;
                  (r, a) = Address_UnmarshalText ResolveTCPAddr (ca_Address ca1) (spl ! 1);
                  ca2 = ca1\<lparr>ca_Address := a\<rparr>
              in case r of
                   Some err \<Rightarrow>
                     (Some (fmt_Errorf
                        (''node: unable to parse consensus address'' @ [CHR 0x27] @
                         '' TCP address: '') err), ca2)
                 | None \<Rightarrow> (None, ca2))))"

section \<open>The replicated storage client\<close>

text \<open>
  Modelled from the spec: the storage client (package \<open>storage/client\<close>), of which the
  sources hold only the test \<open>ClientWorkerTests\<close>. The model follows sections 4.4, 4.5
  and 7 of the specification. The client watches one runtime. A committee event is
  discarded unless it is of kind storage and for the watched runtime. The first matching
  event with a member makes the client ready, with a connection to each member, and
  fires the initialized signal; later matching events replace the connection set.
\<close>

datatype CommitteeKind = KindStorage | KindOther

record ('rt, 'node) Committee =
  cm_Kind :: CommitteeKind
  cm_RuntimeID :: 'rt
  cm_Members :: "'node list"

datatype client_state = Uninitialized | Initializing | Ready

record ('rt, 'node) client =
  cl_state :: client_state
  cl_watched :: "'rt option"
  cl_connections :: "'node list"
  cl_initialized :: nat

text \<open>Modelled from the spec: the errors of the storage client (sections 4.5 and 7).\<close>

datatype client_error = StorageNotAvailable | Unavailable | VerificationFailed | Cancelled

text \<open>Modelled from the spec: construction of the client, with no connection.\<close>

definition New :: "('rt, 'node) client" where
  "New = \<lparr>cl_state = Uninitialized, cl_watched = None, cl_connections = [],
          cl_initialized = 0\<rparr>"

text \<open>Modelled from the spec: \<open>WatchRuntime\<close> begins tracking a runtime's committee.\<close>

definition WatchRuntime :: "'rt \<Rightarrow> ('rt, 'node) client \<Rightarrow> ('rt, 'node) client" where
  "WatchRuntime rt c = c\<lparr>cl_state := Initializing, cl_watched := Some rt\<rparr>"

text \<open>Modelled from the spec: the committee watcher and the committee-update handler.\<close>

definition committee_update ::
  "('rt, 'node) Committee \<Rightarrow> ('rt, 'node) client \<Rightarrow> ('rt, 'node) client" where
  "committee_update cm c =
     (if cm_Kind cm \<noteq> KindStorage \<or> cl_watched c \<noteq> Some (cm_RuntimeID cm) then c
      else if cl_state c = Ready then c\<lparr>cl_connections := cm_Members cm\<rparr>
      else if cm_Members cm \<noteq> [] then
        c\<lparr>cl_state := Ready, cl_connections := cm_Members cm,
          cl_initialized := cl_initialized c + 1\<rparr>
      else c)"

text \<open>Modelled from the spec: the committee events received so far, applied in order.\<close>

fun committee_updates ::
  "('rt, 'node) Committee list \<Rightarrow> ('rt, 'node) client \<Rightarrow> ('rt, 'node) client" where
  "committee_updates [] c = c"
| "committee_updates (cm # cms) c = committee_updates cms (committee_update cm c)"

text \<open>
  Modelled from the spec: what a connected member does with a read before the deadline.
\<close>

datatype 'v peer_outcome = Responds 'v | PeerFails | NoResponse

text \<open>
  Modelled from the spec: the read path tries the connected members in order until one
  responds; when the whole set is exhausted it surfaces \<open>Unavailable\<close>.
\<close>

fun dispatch :: "('node \<Rightarrow> 'v peer_outcome) \<Rightarrow> 'node list \<Rightarrow> client_error + 'v" where
  "dispatch peer [] = Inl Unavailable"
| "dispatch peer (n # ns) =
     (case peer n of Responds v \<Rightarrow> Inr v | PeerFails \<Rightarrow> dispatch peer ns
      | NoResponse \<Rightarrow> dispatch peer ns)"

text \<open>
  Modelled from the spec: the read path. With no connection it fails at once with
  \<open>StorageNotAvailable\<close>.
\<close>

definition SyncGet ::
  "('node \<Rightarrow> 'v peer_outcome) \<Rightarrow> ('rt, 'node) client \<Rightarrow> client_error + 'v" where
  "SyncGet peer c =
     (if cl_connections c = [] then Inl StorageNotAvailable
      else dispatch peer (cl_connections c))"

section \<open>Inputs used to instantiate the theorems\<close>

definition example_header :: "(unit, nat) Header" where
  "example_header =
     \<lparr>Version = 3, Namespace = [1, 2], Round = 7, Timestamp = 0, HeaderType = Normal,
      PreviousHash = [], IORoot = [3], StateRoot = [4], RoothashMessages = Some [],
      StorageSignatures = [1, 2, 0, 3]\<rparr>"

text \<open>A receipt opener that rejects the signature \<open>0\<close>, and an encoding of receipt bodies.\<close>

definition example_Open :: "nat Receipt \<Rightarrow> error option" where
  "example_Open r =
     (if Signed_Signature r = 0 then Some (errors_New ''signature: verification failed'')
      else None)"

definition example_MarshalCBOR :: "ReceiptBody \<Rightarrow> byte list" where
  "example_MarshalCBOR b = ucast (rb_Version b) # rb_Namespace b @ concat (rb_Roots b)"

text \<open>A hash that only depends on the round, for two headers of different rounds.\<close>

definition round_hash :: "(unit, nat) Header option \<Rightarrow> Hash" where
  "round_hash hp = (case hp of None \<Rightarrow> [] | Some h \<Rightarrow> [ucast (Round h)])"





text \<open>
  An identity parser that knows one identity and an address resolver that knows one
  address.
\<close>

definition example_UnmarshalHex :: "string \<Rightarrow> error + byte list" where
  "example_UnmarshalHex s =
     (if s = ''deadbeef'' then Inr [0xde, 0xad, 0xbe, 0xef]
      else Inl (errors_New ''signature: malformed public key''))"

definition example_ResolveTCPAddr :: "string \<Rightarrow> string \<Rightarrow> error + Address" where
  "example_ResolveTCPAddr network address =
     (if address = ''127.0.0.1:26656''
      then Inr \<lparr>IP = [127, 0, 0, 1], Port = 26656, Zone = []\<rparr>
      else Inl (errors_New ''missing port in address''))"

definition example_ConsensusAddress :: "byte list ConsensusAddress" where
  "example_ConsensusAddress =
     \<lparr>ca_ID = [], ca_Address = \<lparr>IP = [], Port = 0, Zone = []\<rparr>\<rparr>"

text \<open>
  Three addresses whose IP is valid: a link-local IPv6 address with a zone, an IPv4
  address with a port beyond 16 bits, and an IPv4 address in its 16-byte form.
\<close>

definition zoned_address :: Address where
  "zoned_address =
     \<lparr>IP = [0xfe, 0x80, 0, 0, 0, 0, 0, 0, 0, 0, 0, 0, 0, 0, 0, 1], Port = 26656,
      Zone = ''eth0''\<rparr>"

definition big_port_address :: Address where
  "big_port_address = \<lparr>IP = [10, 0, 0, 5], Port = 70000, Zone = []\<rparr>"

definition mapped_address :: Address where
  "mapped_address = \<lparr>IP = IPv4 10 0 0 5, Port = 26656, Zone = []\<rparr>"

section \<open>Properties of the block header\<close>

lemma bind_go_simps [simp]:
  "bind_go (Returns x) f = f x" "bind_go (Panics e) f = Panics e"
  by (simp_all add: bind_go_def)

subsection \<open>VerifyStorageReceipt\<close>

text \<open>
  After the length check the loop never reads out of range: it compares the expected
  roots with the receipt's roots from \<open>idx\<close> on.
\<close>

lemma verifyRootsLoop_in_range:
  "idx + length vs = length rs \<Longrightarrow>
   verifyRootsLoop vs rs idx =
     (if vs = drop idx rs then Returns None
      else Returns (Some (errors_New ''roothash: receipt has unexpected roots'')))"
proof (induction vs arbitrary: idx)
  case Nil
  then show ?case by simp
next
  case (Cons v vs)
  then have lt: "idx < length rs" by simp
  then have d: "drop idx rs = rs ! idx # drop (Suc idx) rs"
    by (simp add: Cons_nth_drop_Suc)
  from Cons.prems have "Suc idx + length vs = length rs" by simp
  then show ?case using Cons.IH [of "Suc idx"] lt d by auto
qed

text \<open>
  C1. \<open>VerifyStorageReceipt\<close> returns no error exactly when the receipt's namespace and
  round are the header's and its roots are \<open>[IORoot, StateRoot]\<close>. A wrong namespace, a
  wrong round, a wrong number of roots and a wrong root each give an error of their own,
  and the four errors are pairwise different. The function never panics.
\<close>

theorem VerifyStorageReceipt_spec:
  "((VerifyStorageReceipt h b = Returns None) =
      (rb_Namespace b = Namespace h \<and> rb_Round b = Round h \<and>
       rb_Roots b = [IORoot h, StateRoot h])) \<and>
   (rb_Namespace b \<noteq> Namespace h \<longrightarrow>
      VerifyStorageReceipt h b =
        Returns (Some (errors_New ''roothash: receipt has unexpected namespace''))) \<and>
   (rb_Namespace b = Namespace h \<and> rb_Round b \<noteq> Round h \<longrightarrow>
      VerifyStorageReceipt h b =
        Returns (Some (errors_New ''roothash: receipt has unexpected round''))) \<and>
   (rb_Namespace b = Namespace h \<and> rb_Round b = Round h \<and> length (rb_Roots b) \<noteq> 2 \<longrightarrow>
      VerifyStorageReceipt h b =
        Returns (Some (errors_New ''roothash: receipt has unexpected number of roots''))) \<and>
   (rb_Namespace b = Namespace h \<and> rb_Round b = Round h \<and> length (rb_Roots b) = 2 \<and>
    rb_Roots b \<noteq> [IORoot h, StateRoot h] \<longrightarrow>
      VerifyStorageReceipt h b =
        Returns (Some (errors_New ''roothash: receipt has unexpected roots''))) \<and>
   distinct [errors_New ''roothash: receipt has unexpected namespace'',
             errors_New ''roothash: receipt has unexpected round'',
             errors_New ''roothash: receipt has unexpected number of roots'',
             errors_New ''roothash: receipt has unexpected roots'']"
proof -
  have loop: "length (rb_Roots b) = 2 \<Longrightarrow>
      verifyRootsLoop [IORoot h, StateRoot h] (rb_Roots b) 0 =
        (if rb_Roots b = [IORoot h, StateRoot h] then Returns None
         else Returns (Some (errors_New ''roothash: receipt has unexpected roots'')))"
    using verifyRootsLoop_in_range [of 0 "[IORoot h, StateRoot h]" "rb_Roots b"]
    by (simp add: eq_commute)
  show ?thesis
    using loop
    by (auto simp: VerifyStorageReceipt_def RootsForStorageReceipt_def Let_def)
qed

theorem VerifyStorageReceipt_spec_witness:
  "VerifyStorageReceipt example_header
     \<lparr>rb_Version = 1, rb_Namespace = [1, 2], rb_Round = 7, rb_Roots = [[3], [4]]\<rparr> =
     Returns None \<and>
   VerifyStorageReceipt example_header
     \<lparr>rb_Version = 1, rb_Namespace = [1, 3], rb_Round = 7, rb_Roots = [[3], [4]]\<rparr> =
     Returns (Some (errors_New ''roothash: receipt has unexpected namespace'')) \<and>
   VerifyStorageReceipt example_header
     \<lparr>rb_Version = 1, rb_Namespace = [1, 2], rb_Round = 8, rb_Roots = [[3], [4]]\<rparr> =
     Returns (Some (errors_New ''roothash: receipt has unexpected round'')) \<and>
   VerifyStorageReceipt example_header
     \<lparr>rb_Version = 1, rb_Namespace = [1, 2], rb_Round = 7, rb_Roots = [[3]]\<rparr> =
     Returns (Some (errors_New ''roothash: receipt has unexpected number of roots'')) \<and>
   VerifyStorageReceipt example_header
     \<lparr>rb_Version = 1, rb_Namespace = [1, 2], rb_Round = 7, rb_Roots = [[3], [5]]\<rparr> =
     Returns (Some (errors_New ''roothash: receipt has unexpected roots''))"
  using
    VerifyStorageReceipt_spec [of example_header
      "\<lparr>rb_Version = 1, rb_Namespace = [1, 2], rb_Round = 7, rb_Roots = [[3], [4]]\<rparr>"]
    VerifyStorageReceipt_spec [of example_header
      "\<lparr>rb_Version = 1, rb_Namespace = [1, 3], rb_Round = 7, rb_Roots = [[3], [4]]\<rparr>"]
    VerifyStorageReceipt_spec [of example_header
      "\<lparr>rb_Version = 1, rb_Namespace = [1, 2], rb_Round = 8, rb_Roots = [[3], [4]]\<rparr>"]
    VerifyStorageReceipt_spec [of example_header
      "\<lparr>rb_Version = 1, rb_Namespace = [1, 2], rb_Round = 7, rb_Roots = [[3]]\<rparr>"]
    VerifyStorageReceipt_spec [of example_header
      "\<lparr>rb_Version = 1, rb_Namespace = [1, 2], rb_Round = 7, rb_Roots = [[3], [5]]\<rparr>"]
  by (simp add: example_header_def)

subsection \<open>VerifyStorageReceiptSignatures\<close>

lemma openLoop_all_open:
  "\<forall>sig \<in> set sigs. Open \<lparr>Signed_Blob = blob, Signed_Signature = sig\<rparr> = None \<Longrightarrow>
   openLoop Open blob sigs log =
     (None, log @ map (\<lambda>sig. Call_Open \<lparr>Signed_Blob = blob, Signed_Signature = sig\<rparr>) sigs)"
  by (induction sigs arbitrary: log) simp_all

lemma openLoop_first_failure:
  "\<forall>sig \<in> set pre. Open \<lparr>Signed_Blob = blob, Signed_Signature = sig\<rparr> = None \<Longrightarrow>
   Open \<lparr>Signed_Blob = blob, Signed_Signature = bad\<rparr> = Some e \<Longrightarrow>
   openLoop Open blob (pre @ bad # rest) log =
     (Some e,
      log @ map (\<lambda>sig. Call_Open \<lparr>Signed_Blob = blob, Signed_Signature = sig\<rparr>) (pre @ [bad]))"
  by (induction pre arbitrary: log) simp_all

lemma marshalled_append: "marshalled (xs @ ys) = marshalled xs @ marshalled ys"
  by (induction xs rule: marshalled.induct) simp_all

lemma opened_append: "opened (xs @ ys) = opened xs @ opened ys"
  by (induction xs rule: opened.induct) simp_all

lemma openLoop_marshalled: "marshalled (snd (openLoop Open blob sigs log)) = marshalled log"
  by (induction sigs arbitrary: log)
    (simp_all add: Let_def marshalled_append split: option.splits)

lemma openLoop_opened_blobs:
  "\<exists>n. map Signed_Blob (opened (snd (openLoop Open blob sigs log))) =
        map Signed_Blob (opened log) @ replicate n blob"
proof (induction sigs arbitrary: log)
  case Nil
  show ?case by (rule exI [of _ 0]) simp
next
  case (Cons sig sigs)
  let ?r = "\<lparr>Signed_Blob = blob, Signed_Signature = sig\<rparr>"
  show ?case
  proof (cases "Open ?r")
    case None
    from Cons [of "log @ [Call_Open ?r]"]
    obtain n where
      "map Signed_Blob (opened (snd (openLoop Open blob sigs (log @ [Call_Open ?r])))) =
       map Signed_Blob (opened (log @ [Call_Open ?r])) @ replicate n blob"
      by blast
    then show ?thesis using None
      by (intro exI [of _ "Suc n"]) (simp add: opened_append replicate_app_Cons_same)
  next
    case (Some e)
    then show ?thesis
      by (intro exI [of _ "Suc 0"]) (simp add: opened_append)
  qed
qed

text \<open>
  C2. \<open>VerifyStorageReceiptSignatures\<close> encodes the receipt body derived from the header
  (version 1, the header's namespace and round, the roots \<open>[IORoot, StateRoot]\<close>) and
  opens, in order, one receipt per storage signature, each made of that encoding and the
  signature. When every receipt opens it returns no error, having opened all of them.
  When a signature fails after a prefix of signatures that open, it returns the error of
  that signature, and the receipts opened are those of the prefix and the failing one:
  no later signature is checked.
\<close>

theorem VerifyStorageReceiptSignatures_first_failure:
  "((\<forall>sig \<in> set (StorageSignatures h).
        Open \<lparr>Signed_Blob =
                MarshalCBOR \<lparr>rb_Version = 1, rb_Namespace = Namespace h, rb_Round = Round h,
                             rb_Roots = [IORoot h, StateRoot h]\<rparr>,
              Signed_Signature = sig\<rparr> = None) \<longrightarrow>
    VerifyStorageReceiptSignatures MarshalCBOR Open h =
      (None,
       Call_MarshalCBOR \<lparr>rb_Version = 1, rb_Namespace = Namespace h, rb_Round = Round h,
                         rb_Roots = [IORoot h, StateRoot h]\<rparr> #
       map (\<lambda>sig. Call_Open
              \<lparr>Signed_Blob =
                 MarshalCBOR \<lparr>rb_Version = 1, rb_Namespace = Namespace h, rb_Round = Round h,
                              rb_Roots = [IORoot h, StateRoot h]\<rparr>,
               Signed_Signature = sig\<rparr>)
         (StorageSignatures h))) \<and>
   (StorageSignatures h = pre @ bad # rest \<and>
    (\<forall>sig \<in> set pre.
        Open \<lparr>Signed_Blob =
                MarshalCBOR \<lparr>rb_Version = 1, rb_Namespace = Namespace h, rb_Round = Round h,
                             rb_Roots = [IORoot h, StateRoot h]\<rparr>,
              Signed_Signature = sig\<rparr> = None) \<and>
    Open \<lparr>Signed_Blob =
            MarshalCBOR \<lparr>rb_Version = 1, rb_Namespace = Namespace h, rb_Round = Round h,
                         rb_Roots = [IORoot h, StateRoot h]\<rparr>,
          Signed_Signature = bad\<rparr> = Some e \<longrightarrow>
    VerifyStorageReceiptSignatures MarshalCBOR Open h =
      (Some e,
       Call_MarshalCBOR \<lparr>rb_Version = 1, rb_Namespace = Namespace h, rb_Round = Round h,
                         rb_Roots = [IORoot h, StateRoot h]\<rparr> #
       map (\<lambda>sig. Call_Open
              \<lparr>Signed_Blob =
                 MarshalCBOR \<lparr>rb_Version = 1, rb_Namespace = Namespace h, rb_Round = Round h,
                              rb_Roots = [IORoot h, StateRoot h]\<rparr>,
               Signed_Signature = sig\<rparr>)
         (pre @ [bad])))"
proof -
  let ?body = "\<lparr>rb_Version = 1, rb_Namespace = Namespace h, rb_Round = Round h,
                 rb_Roots = [IORoot h, StateRoot h]\<rparr>"
  have unfold: "VerifyStorageReceiptSignatures MarshalCBOR Open h =
      openLoop Open (MarshalCBOR ?body) (StorageSignatures h) [Call_MarshalCBOR ?body]"
    by (simp add: VerifyStorageReceiptSignatures_def RootsForStorageReceipt_def Let_def)
  show ?thesis
    unfolding unfold
    using openLoop_all_open [of "StorageSignatures h" Open "MarshalCBOR ?body"
        "[Call_MarshalCBOR ?body]"]
      openLoop_first_failure [of pre Open "MarshalCBOR ?body" bad e rest
        "[Call_MarshalCBOR ?body]"]
    by auto
qed

theorem VerifyStorageReceiptSignatures_first_failure_witness:
  "VerifyStorageReceiptSignatures example_MarshalCBOR example_Open example_header =
     (Some (errors_New ''signature: verification failed''),
      [Call_MarshalCBOR \<lparr>rb_Version = 1, rb_Namespace = [1, 2], rb_Round = 7,
                         rb_Roots = [[3], [4]]\<rparr>,
       Call_Open \<lparr>Signed_Blob = [1, 1, 2, 3, 4], Signed_Signature = 1\<rparr>,
       Call_Open \<lparr>Signed_Blob = [1, 1, 2, 3, 4], Signed_Signature = 2\<rparr>,
       Call_Open \<lparr>Signed_Blob = [1, 1, 2, 3, 4], Signed_Signature = 0\<rparr>]) \<and>
   VerifyStorageReceiptSignatures example_MarshalCBOR example_Open
       (example_header\<lparr>StorageSignatures := [1, 2]\<rparr>) =
     (None,
      [Call_MarshalCBOR \<lparr>rb_Version = 1, rb_Namespace = [1, 2], rb_Round = 7,
                         rb_Roots = [[3], [4]]\<rparr>,
       Call_Open \<lparr>Signed_Blob = [1, 1, 2, 3, 4], Signed_Signature = 1\<rparr>,
       Call_Open \<lparr>Signed_Blob = [1, 1, 2, 3, 4], Signed_Signature = 2\<rparr>])"
  using
    VerifyStorageReceiptSignatures_first_failure [of example_header example_Open
      example_MarshalCBOR "[1, 2]" 0 "[3]" "errors_New ''signature: verification failed''"]
    VerifyStorageReceiptSignatures_first_failure [of
      "example_header\<lparr>StorageSignatures := [1, 2]\<rparr>" example_Open example_MarshalCBOR]
  by (simp add: example_header_def example_Open_def example_MarshalCBOR_def)

text \<open>
  C8. With no storage signature the header passes: the result is no error and no receipt
  is opened.
\<close>

theorem VerifyStorageReceiptSignatures_no_signatures:
  "StorageSignatures h = [] \<Longrightarrow>
   fst (VerifyStorageReceiptSignatures MarshalCBOR Open h) = None \<and>
   opened (snd (VerifyStorageReceiptSignatures MarshalCBOR Open h)) = []"
  by (simp add: VerifyStorageReceiptSignatures_def Let_def)

theorem VerifyStorageReceiptSignatures_no_signatures_witness:
  "fst (VerifyStorageReceiptSignatures example_MarshalCBOR example_Open
          (example_header\<lparr>StorageSignatures := []\<rparr>)) = None \<and>
   opened (snd (VerifyStorageReceiptSignatures example_MarshalCBOR example_Open
          (example_header\<lparr>StorageSignatures := []\<rparr>))) = []"
  using VerifyStorageReceiptSignatures_no_signatures [of
      "example_header\<lparr>StorageSignatures := []\<rparr>" example_MarshalCBOR example_Open]
  by simp

text \<open>
  C9. Whatever the header's version, exactly one receipt body is encoded, its version
  is 1, every receipt opened carries the encoding of that body, and the result does not
  depend on the header's version.
\<close>

theorem VerifyStorageReceiptSignatures_body_version:
  "\<exists>body n.
     marshalled (snd (VerifyStorageReceiptSignatures MarshalCBOR Open h)) = [body] \<and>
     rb_Version body = 1 \<and>
     map Signed_Blob (opened (snd (VerifyStorageReceiptSignatures MarshalCBOR Open h))) =
       replicate n (MarshalCBOR body) \<and>
     VerifyStorageReceiptSignatures MarshalCBOR Open (h\<lparr>Version := v\<rparr>) =
       VerifyStorageReceiptSignatures MarshalCBOR Open h"
proof -
  let ?body = "\<lparr>rb_Version = 1, rb_Namespace = Namespace h, rb_Round = Round h,
                 rb_Roots = [IORoot h, StateRoot h]\<rparr>"
  have unfold: "VerifyStorageReceiptSignatures MarshalCBOR Open h =
      openLoop Open (MarshalCBOR ?body) (StorageSignatures h) [Call_MarshalCBOR ?body]"
    by (simp add: VerifyStorageReceiptSignatures_def RootsForStorageReceipt_def Let_def)
  obtain n where n: "map Signed_Blob (opened (snd (openLoop Open (MarshalCBOR ?body)
      (StorageSignatures h) [Call_MarshalCBOR ?body]))) = replicate n (MarshalCBOR ?body)"
    using openLoop_opened_blobs [of Open "MarshalCBOR ?body" "StorageSignatures h"
        "[Call_MarshalCBOR ?body]"]
    by auto
  have m: "marshalled (snd (VerifyStorageReceiptSignatures MarshalCBOR Open h)) = [?body]"
    unfolding unfold by (simp add: openLoop_marshalled)
  have v: "VerifyStorageReceiptSignatures MarshalCBOR Open (h\<lparr>Version := v\<rparr>) =
      VerifyStorageReceiptSignatures MarshalCBOR Open h"
    by (simp add: VerifyStorageReceiptSignatures_def RootsForStorageReceipt_def)
  show ?thesis
    using m n v unfolding unfold by (intro exI [of _ ?body] exI [of _ n]) simp
qed

subsection \<open>MostlyEqual\<close>

text \<open>
  On valid pointers \<open>MostlyEqual\<close> returns whether the hashes of the two headers with
  their storage signatures cleared are equal, and the store extended by the two copies.
\<close>

lemma MostlyEqual_value:
  assumes "deref s h = Returns h1" and "deref s cmp = Returns h2"
  shows "MostlyEqual From s h cmp =
           Returns (From (Some (h1\<lparr>StorageSignatures := []\<rparr>)) =
                      From (Some (h2\<lparr>StorageSignatures := []\<rparr>)),
                    s @ [h1\<lparr>StorageSignatures := []\<rparr>, h2\<lparr>StorageSignatures := []\<rparr>])"
  using assms
  by (simp add: MostlyEqual_def EncodedHash_def deref_def Let_def nth_append list_update_append)








text \<open>
  C10. \<open>MostlyEqual\<close> leaves its arguments as they were: every object of the store
  before the call is unchanged after it, so both pointers still lead to the headers they
  led to, storage signatures included. Only the two copies are new. This holds as well
  when both pointers are the same.
\<close>

theorem MostlyEqual_frame:
  assumes "deref s h = Returns h1" and "deref s cmp = Returns h2"
  shows "\<exists>r s'. MostlyEqual From s h cmp = Returns (r, s') \<and>
           take (length s) s' = s \<and> length s' = length s + 2 \<and>
           deref s' h = Returns h1 \<and> deref s' cmp = Returns h2"
  using MostlyEqual_value [OF assms, of From] assms
  by (auto simp: deref_def nth_append split: ptr.splits if_splits)

theorem MostlyEqual_frame_witness:
  "\<exists>r s'. MostlyEqual round_hash [example_header, example_header\<lparr>Round := 8\<rparr>]
              (Ptr 0) (Ptr 1) = Returns (r, s') \<and>
     take 2 s' = [example_header, example_header\<lparr>Round := 8\<rparr>] \<and> length s' = 4 \<and>
     deref s' (Ptr 0) = Returns example_header \<and>
     deref s' (Ptr 1) = Returns (example_header\<lparr>Round := 8\<rparr>)"
proof -
  let ?s = "[example_header, example_header\<lparr>Round := 8\<rparr>]"
  have d0: "deref ?s (Ptr 0) = Returns example_header"
    and d1: "deref ?s (Ptr 1) = Returns (example_header\<lparr>Round := 8\<rparr>)"
    by (simp_all add: deref_def)
  show ?thesis
    using MostlyEqual_frame [OF d0 d1, of round_hash] by (simp add: eval_nat_numeral)
qed

section \<open>Properties of the consensus address\<close>

lemma strings_Split_not_Nil: "strings_Split s sep \<noteq> []"
  by (induction s) (auto split: list.splits)

lemma strings_Split_length: "length (strings_Split s sep) = Suc (count_list s sep)"
proof (induction s)
  case Nil
  show ?case by simp
next
  case (Cons c cs)
  then show ?case
    using strings_Split_not_Nil [of cs sep] by (auto split: list.splits)
qed

lemma strings_Split_no_sep: "sep \<notin> set s \<Longrightarrow> strings_Split s sep = [s]"
  by (induction s) auto

lemma strings_Split_one_sep:
  "sep \<notin> set l \<Longrightarrow> sep \<notin> set r \<Longrightarrow> strings_Split (l @ sep # r) sep = [l, r]"
  by (induction l) (auto simp: strings_Split_no_sep)

text \<open>The result on a text that splits in two at \<open>@\<close>.\<close>

lemma ConsensusAddress_UnmarshalText_two:
  "strings_Split text CHR ''@'' = [idText, addrText] \<Longrightarrow>
   ConsensusAddress_UnmarshalText UnmarshalHex ResolveTCPAddr ca text =
     (case UnmarshalHex idText of
        Inl err \<Rightarrow>
          (Some (fmt_Errorf
             (''node: unable to parse consensus address'' @ [CHR 0x27] @ '' ID: '') err), ca)
      | Inr k \<Rightarrow>
          (case ResolveTCPAddr [] addrText of
             Inl err \<Rightarrow>
               (Some (fmt_Errorf
                  (''node: unable to parse consensus address'' @ [CHR 0x27] @
                   '' TCP address: '') err), ca\<lparr>ca_ID := k\<rparr>)
           | Inr addr \<Rightarrow> (None, ca\<lparr>ca_ID := k, ca_Address := addr\<rparr>)))"
  by (simp add: ConsensusAddress_UnmarshalText_def Address_UnmarshalText_def Let_def
      split: sum.splits)

text \<open>
  C5, as stated, fails: a text with two \<open>@\<close> has an identity segment before the first
  \<open>@\<close>, yet it is rejected with \<open>ErrConsensusAddressNoID\<close> and the identity is not parsed.
\<close>

theorem ConsensusAddress_UnmarshalText_counterexample:
  "CHR ''@'' \<in> set ''ab@cd@ef'' \<and>
   hd (strings_Split ''ab@cd@ef'' CHR ''@'') = ''ab'' \<and>
   (\<forall>UnmarshalHex ResolveTCPAddr (ca :: nat ConsensusAddress).
      ConsensusAddress_UnmarshalText UnmarshalHex ResolveTCPAddr ca ''ab@cd@ef'' =
        (Some ErrConsensusAddressNoID, ca))"
  by (simp add: ConsensusAddress_UnmarshalText_def)

text \<open>
  C5, amended. Parsing fails with \<open>ErrConsensusAddressNoID\<close> exactly when the text does
  not hold exactly one \<open>@\<close>, so for every text without \<open>@\<close>; the consensus address is then
  unchanged. For a text \<open>id@addr\<close> with one \<open>@\<close>, an error of the identity parser is
  returned wrapped and nothing is changed; otherwise the identity is assigned, and an
  error of the address parser is returned wrapped; otherwise the address is assigned and
  no error is returned.
\<close>

theorem ConsensusAddress_UnmarshalText_spec:
  "((fst (ConsensusAddress_UnmarshalText UnmarshalHex ResolveTCPAddr ca text) =
       Some ErrConsensusAddressNoID) = (count_list text CHR ''@'' \<noteq> 1)) \<and>
   (count_list text CHR ''@'' \<noteq> 1 \<longrightarrow>
      ConsensusAddress_UnmarshalText UnmarshalHex ResolveTCPAddr ca text =
        (Some ErrConsensusAddressNoID, ca)) \<and>
   (CHR ''@'' \<notin> set text \<longrightarrow>
      ConsensusAddress_UnmarshalText UnmarshalHex ResolveTCPAddr ca text =
        (Some ErrConsensusAddressNoID, ca)) \<and>
   (CHR ''@'' \<notin> set idText \<and> CHR ''@'' \<notin> set addrText \<longrightarrow>
      ConsensusAddress_UnmarshalText UnmarshalHex ResolveTCPAddr ca
          (idText @ ''@'' @ addrText) =
        (case UnmarshalHex idText of
           Inl err \<Rightarrow>
             (Some (fmt_Errorf
                (''node: unable to parse consensus address'' @ [CHR 0x27] @ '' ID: '') err), ca)
         | Inr k \<Rightarrow>
             (case ResolveTCPAddr [] addrText of
                Inl err \<Rightarrow>
                  (Some (fmt_Errorf
                     (''node: unable to parse consensus address'' @ [CHR 0x27] @
                      '' TCP address: '') err), ca\<lparr>ca_ID := k\<rparr>)
              | Inr addr \<Rightarrow> (None, ca\<lparr>ca_ID := k, ca_Address := addr\<rparr>))))"
proof -
  let ?r = "ConsensusAddress_UnmarshalText UnmarshalHex ResolveTCPAddr ca text"
  have len: "(length (strings_Split text CHR ''@'') \<noteq> 2) = (count_list text CHR ''@'' \<noteq> 1)"
    by (simp add: strings_Split_length)
  have no_id: "?r = (Some ErrConsensusAddressNoID, ca)" if "count_list text CHR ''@'' \<noteq> 1"
    using that len by (simp add: ConsensusAddress_UnmarshalText_def Let_def)
  have other: "fst ?r \<noteq> Some ErrConsensusAddressNoID" if "count_list text CHR ''@'' = 1"
  proof -
    from that len have "length (strings_Split text CHR ''@'') = 2" by simp
    then obtain i a where "strings_Split text CHR ''@'' = [i, a]"
      by (auto simp: length_Suc_conv eval_nat_numeral)
    then show ?thesis
      by (simp add: ConsensusAddress_UnmarshalText_two ErrConsensusAddressNoID_def
          split: sum.splits)
  qed
  have absent: "count_list text CHR ''@'' \<noteq> 1" if "CHR ''@'' \<notin> set text"
    using that by (simp add: count_list_0_iff)
  have one: "strings_Split (idText @ ''@'' @ addrText) CHR ''@'' = [idText, addrText]"
    if "CHR ''@'' \<notin> set idText" "CHR ''@'' \<notin> set addrText"
    using that strings_Split_one_sep [of "CHR ''@''" idText addrText] by simp
  have c1: "(fst ?r = Some ErrConsensusAddressNoID) = (count_list text CHR ''@'' \<noteq> 1)"
    using no_id other by (cases "count_list text CHR ''@'' = 1") simp_all
  show ?thesis
    using c1 no_id absent ConsensusAddress_UnmarshalText_two [OF one]
    by blast
qed

theorem ConsensusAddress_UnmarshalText_spec_witness:
  "ConsensusAddress_UnmarshalText example_UnmarshalHex example_ResolveTCPAddr
       example_ConsensusAddress ''deadbeef@127.0.0.1:26656'' =
     (None, \<lparr>ca_ID = [0xde, 0xad, 0xbe, 0xef],
             ca_Address = \<lparr>IP = [127, 0, 0, 1], Port = 26656, Zone = []\<rparr>\<rparr>) \<and>
   ConsensusAddress_UnmarshalText example_UnmarshalHex example_ResolveTCPAddr
       example_ConsensusAddress ''127.0.0.1:26656'' =
     (Some ErrConsensusAddressNoID, example_ConsensusAddress) \<and>
   ConsensusAddress_UnmarshalText example_UnmarshalHex example_ResolveTCPAddr
       example_ConsensusAddress ''deadbeef@localhost'' =
     (Some (fmt_Errorf
        (''node: unable to parse consensus address'' @ [CHR 0x27] @ '' TCP address: '')
        (errors_New ''missing port in address'')),
      example_ConsensusAddress\<lparr>ca_ID := [0xde, 0xad, 0xbe, 0xef]\<rparr>)"
  using
    ConsensusAddress_UnmarshalText_spec [of example_UnmarshalHex example_ResolveTCPAddr
      example_ConsensusAddress "''deadbeef@127.0.0.1:26656''" "''deadbeef''"
      "''127.0.0.1:26656''"]
    ConsensusAddress_UnmarshalText_spec [of example_UnmarshalHex example_ResolveTCPAddr
      example_ConsensusAddress "''127.0.0.1:26656''" "''deadbeef''" "''localhost''"]
  by (simp add: example_UnmarshalHex_def example_ResolveTCPAddr_def
      example_ConsensusAddress_def)

section \<open>Properties of the storage client\<close>

lemma committee_update_watched: "cl_watched (committee_update cm c) = cl_watched c"
  by (simp add: committee_update_def)

lemma committee_updates_watched: "cl_watched (committee_updates cms c) = cl_watched c"
  by (induction cms arbitrary: c) (simp_all add: committee_update_watched)

lemma committee_update_connects:
  "cm_Kind cm = KindStorage \<Longrightarrow> cl_watched c = Some (cm_RuntimeID cm) \<Longrightarrow>
   cm_Members cm \<noteq> [] \<Longrightarrow> cl_connections (committee_update cm c) = cm_Members cm"
  by (simp add: committee_update_def)

lemma committee_updates_discarded:
  "\<forall>cm \<in> set cms. cm_Kind cm \<noteq> KindStorage \<or> cl_watched c \<noteq> Some (cm_RuntimeID cm) \<Longrightarrow>
   committee_updates cms c = c"
  by (induction cms arbitrary: c) (simp_all add: committee_update_def)

lemma dispatch_exhausted:
  "\<forall>n \<in> set ns. peer n = PeerFails \<or> peer n = NoResponse \<Longrightarrow>
   dispatch peer ns = Inl Unavailable"
  by (induction ns) auto

text \<open>
  C4. On the client as constructed, and as long as every committee event received is
  discarded by the watcher, a read fails with \<open>StorageNotAvailable\<close>. Once an event of
  the storage committee of the watched runtime with at least one member has been
  applied, a read on which no member responds (each fails or is silent until the
  deadline) fails with \<open>Unavailable\<close>, which is another error.
\<close>

theorem SyncGet_not_available_then_unavailable:
  "SyncGet peer (WatchRuntime rt New) = Inl StorageNotAvailable \<and>
   ((\<forall>cm \<in> set discarded. cm_Kind cm \<noteq> KindStorage \<or> cm_RuntimeID cm \<noteq> rt) \<longrightarrow>
      SyncGet peer (committee_updates discarded (WatchRuntime rt New)) =
        Inl StorageNotAvailable) \<and>
   (cm_Kind cm = KindStorage \<and> cm_RuntimeID cm = rt \<and> cm_Members cm \<noteq> [] \<and>
    (\<forall>n \<in> set (cm_Members cm). peer n = PeerFails \<or> peer n = NoResponse) \<longrightarrow>
      SyncGet peer (committee_update cm (committee_updates cms (WatchRuntime rt New))) =
        Inl Unavailable) \<and>
   (Inl Unavailable :: client_error + 'v) \<noteq> Inl StorageNotAvailable"
proof -
  have w: "\<And>xs. cl_watched (committee_updates xs (WatchRuntime rt New)) = Some rt"
    by (simp add: committee_updates_watched WatchRuntime_def)
  have first: "SyncGet peer (WatchRuntime rt New) = Inl StorageNotAvailable"
    by (simp add: SyncGet_def WatchRuntime_def New_def)
  have second: "SyncGet peer (committee_updates discarded (WatchRuntime rt New)) =
        Inl StorageNotAvailable"
    if "\<forall>cm \<in> set discarded. cm_Kind cm \<noteq> KindStorage \<or> cm_RuntimeID cm \<noteq> rt"
  proof -
    have "committee_updates discarded (WatchRuntime rt New) = WatchRuntime rt New"
      using that by (intro committee_updates_discarded) (auto simp: WatchRuntime_def)
    then show ?thesis using first by simp
  qed
  have third: "SyncGet peer (committee_update cm (committee_updates cms (WatchRuntime rt New))) =
        Inl Unavailable"
    if "cm_Kind cm = KindStorage" "cm_RuntimeID cm = rt" "cm_Members cm \<noteq> []"
      "\<forall>n \<in> set (cm_Members cm). peer n = PeerFails \<or> peer n = NoResponse"
  proof -
    have "cl_connections (committee_update cm (committee_updates cms (WatchRuntime rt New))) =
        cm_Members cm"
      using that w [of cms] by (intro committee_update_connects) simp_all
    then show ?thesis
      using that dispatch_exhausted [of "cm_Members cm" peer] by (simp add: SyncGet_def)
  qed
  show ?thesis using first second third by simp
qed

theorem SyncGet_not_available_then_unavailable_witness:
  "SyncGet (\<lambda>n :: nat. NoResponse :: nat peer_outcome) (WatchRuntime (1 :: nat) New) =
     Inl StorageNotAvailable \<and>
   SyncGet (\<lambda>n :: nat. NoResponse :: nat peer_outcome)
     (committee_updates [\<lparr>cm_Kind = KindOther, cm_RuntimeID = 1, cm_Members = [7]\<rparr>,
                         \<lparr>cm_Kind = KindStorage, cm_RuntimeID = 2, cm_Members = [8]\<rparr>]
        (WatchRuntime (1 :: nat) New)) = Inl StorageNotAvailable \<and>
   SyncGet (\<lambda>n :: nat. NoResponse :: nat peer_outcome)
     (committee_update \<lparr>cm_Kind = KindStorage, cm_RuntimeID = 1, cm_Members = [3, 4, 5]\<rparr>
        (committee_updates [\<lparr>cm_Kind = KindOther, cm_RuntimeID = 1, cm_Members = [7]\<rparr>]
           (WatchRuntime (1 :: nat) New))) = Inl Unavailable"
  using SyncGet_not_available_then_unavailable [of "\<lambda>n :: nat. NoResponse :: nat peer_outcome"
      "1 :: nat"
      "[\<lparr>cm_Kind = KindOther, cm_RuntimeID = 1, cm_Members = [7]\<rparr>,
        \<lparr>cm_Kind = KindStorage, cm_RuntimeID = 2, cm_Members = [8]\<rparr>]"
      "\<lparr>cm_Kind = KindStorage, cm_RuntimeID = 1, cm_Members = [3, 4, 5]\<rparr>"
      "[\<lparr>cm_Kind = KindOther, cm_RuntimeID = 1, cm_Members = [7]\<rparr>]"]
  by simp

section \<open>Properties of the binary form of addresses\<close>

lemma port_uint32:
  "0 \<le> p \<Longrightarrow> p \<le> 65535 \<Longrightarrow>
   uint (word_of_int p :: 32 word) = p \<and> \<not> (word_of_int p :: 32 word) > 65535"
proof -
  assume p: "0 \<le> p" "p \<le> 65535"
  then have "take_bit 32 p = p"
    by (intro take_bit_int_eq_self) simp_all
  then have u: "uint (word_of_int p :: 32 word) = p"
    by (simp add: uint_word_of_int_eq)
  then show ?thesis using p by (simp add: word_less_def)
qed

text \<open>A 16-byte address that \<open>To4\<close> accepts starts with the IPv4-mapped prefix.\<close>

lemma To4_mapped_prefix:
  assumes "length ip = 16" and "To4 ip = Some x"
  shows "take 12 ip = v4InV6Prefix \<and> x = drop 12 ip"
proof -
  from assms have z: "isZeros (take 10 ip)" and b: "ip ! 10 = 0xff" "ip ! 11 = 0xff"
    and x: "x = drop 12 ip"
    by (auto simp: To4_def split: if_splits)
  have "take 12 ip = take 10 ip @ [ip ! 10, ip ! 11]"
    using assms(1) by (simp add: take_Suc_conv_app_nth eval_nat_numeral)
  moreover have "take 10 ip = replicate 10 0"
    using z assms(1)
    by (intro replicate_eqI) (auto simp: isZeros_def list_all_iff dest: in_set_takeD)
  ultimately show ?thesis
    using b x by (simp add: v4InV6Prefix_def eval_nat_numeral)
qed

lemma To4_length: "To4 ip = Some x \<Longrightarrow> length x = 4"
  by (auto simp: To4_def split: if_splits)

text \<open>
  C6, as stated, fails on three addresses whose IP is valid. The binary form has no
  zone, so an address with a zone comes back without it. A port beyond 16 bits is
  encoded and then refused by the decoder. An IPv4 address held in its 16-byte form is
  tagged as IPv4 and comes back in its 4-byte form.
\<close>

theorem proto_address_round_trip_counterexample:
  "toProtoAddress zoned_address =
     Returns \<lparr>pb_Transport = Address_TCPv6,
              pb_Address = [0xfe, 0x80, 0, 0, 0, 0, 0, 0, 0, 0, 0, 0, 0, 0, 0, 1],
              pb_Port = 26656\<rparr> \<and>
   parseProtoAddress \<lparr>pb_Transport = Address_TCPv6,
              pb_Address = [0xfe, 0x80, 0, 0, 0, 0, 0, 0, 0, 0, 0, 0, 0, 0, 0, 1],
              pb_Port = 26656\<rparr> = Inr (zoned_address\<lparr>Zone := []\<rparr>) \<and>
   zoned_address\<lparr>Zone := []\<rparr> \<noteq> zoned_address \<and>
   toProtoAddress big_port_address =
     Returns \<lparr>pb_Transport = Address_TCPv4, pb_Address = [10, 0, 0, 5], pb_Port = 70000\<rparr> \<and>
   parseProtoAddress \<lparr>pb_Transport = Address_TCPv4, pb_Address = [10, 0, 0, 5],
              pb_Port = 70000\<rparr> = Inl ErrInvalidAddress \<and>
   toProtoAddress mapped_address =
     Returns \<lparr>pb_Transport = Address_TCPv4, pb_Address = [10, 0, 0, 5], pb_Port = 26656\<rparr> \<and>
   parseProtoAddress \<lparr>pb_Transport = Address_TCPv4, pb_Address = [10, 0, 0, 5],
              pb_Port = 26656\<rparr> = Inr (mapped_address\<lparr>IP := [10, 0, 0, 5]\<rparr>) \<and>
   mapped_address\<lparr>IP := [10, 0, 0, 5]\<rparr> \<noteq> mapped_address"
  by (simp add: zoned_address_def big_port_address_def mapped_address_def toProtoAddress_def
      parseProtoAddress_def To4_def To16_def isZeros_def IPv4_def v4InV6Prefix_def)

text \<open>
  C6, amended. For every address whose IP has 4 or 16 bytes, whose port is within 16
  bits and whose zone is empty, encoding succeeds, with the IPv4 tag exactly when the IP
  is an IPv4 address (4 bytes, or 16 bytes in IPv4-mapped form), and decoding the result
  yields an address with the same port and zone and an IP equal to the original as an IP
  address (\<open>IP.Equal\<close>). The decoded address is the original one when the IP has 4 bytes
  or is an IPv6 address proper; for an IPv4-mapped IP the decoded IP is its 4-byte form.
  Decoding fails with \<open>ErrInvalidAddress\<close> when the length of the address does not
  match the tag, when the port exceeds 16 bits, and when the tag is neither.
\<close>

theorem proto_address_round_trip:
  "((length (IP a) = 4 \<or> length (IP a) = 16) \<and> 0 \<le> Port a \<and> Port a \<le> 65535 \<and>
    Zone a = [] \<longrightarrow>
      (\<exists>pb a'. toProtoAddress a = Returns pb \<and>
         pb_Transport pb = (if To4 (IP a) = None then Address_TCPv6 else Address_TCPv4) \<and>
         parseProtoAddress pb = Inr a' \<and>
         Port a' = Port a \<and> Zone a' = Zone a \<and> IP_Equal (IP a') (IP a) \<and>
         (length (IP a) = 4 \<or> To4 (IP a) = None \<longrightarrow> a' = a) \<and>
         (length (IP a) = 16 \<and> To4 (IP a) \<noteq> None \<longrightarrow> IP a' = drop 12 (IP a)))) \<and>
   (pb_Transport pb = Address_TCPv4 \<and> length (pb_Address pb) \<noteq> 4 \<longrightarrow>
      parseProtoAddress pb = Inl ErrInvalidAddress) \<and>
   (pb_Transport pb = Address_TCPv6 \<and> length (pb_Address pb) \<noteq> 16 \<longrightarrow>
      parseProtoAddress pb = Inl ErrInvalidAddress) \<and>
   (pb_Port pb > 65535 \<longrightarrow> parseProtoAddress pb = Inl ErrInvalidAddress) \<and>
   (pb_Transport pb = Address_Transport_other t \<longrightarrow>
      parseProtoAddress pb = Inl ErrInvalidAddress)"
proof -
  have round: "\<exists>pb a'. toProtoAddress a = Returns pb \<and>
         pb_Transport pb = (if To4 (IP a) = None then Address_TCPv6 else Address_TCPv4) \<and>
         parseProtoAddress pb = Inr a' \<and>
         Port a' = Port a \<and> Zone a' = Zone a \<and> IP_Equal (IP a') (IP a) \<and>
         (length (IP a) = 4 \<or> To4 (IP a) = None \<longrightarrow> a' = a) \<and>
         (length (IP a) = 16 \<and> To4 (IP a) \<noteq> None \<longrightarrow> IP a' = drop 12 (IP a))"
    if len: "length (IP a) = 4 \<or> length (IP a) = 16"
      and port: "0 \<le> Port a" "Port a \<le> 65535" and zone: "Zone a = []"
  proof -
    note p = port_uint32 [OF port]
    have a: "a = \<lparr>IP = IP a, Port = Port a, Zone = []\<rparr>"
      using zone by simp
    show ?thesis
    proof (cases "To4 (IP a)")
      case None
      with len have l16: "length (IP a) = 16" by (auto simp: To4_def split: if_splits)
      then have t16: "To16 (IP a) = Some (IP a)" by (simp add: To16_def)
      have "toProtoAddress a =
          Returns \<lparr>pb_Transport = Address_TCPv6, pb_Address = IP a,
                   pb_Port = word_of_int (Port a)\<rparr>"
        using None t16 by (simp add: toProtoAddress_def)
      moreover have "parseProtoAddress \<lparr>pb_Transport = Address_TCPv6, pb_Address = IP a,
          pb_Port = word_of_int (Port a)\<rparr> = Inr a"
        using l16 p a by (simp add: parseProtoAddress_def)
      ultimately show ?thesis
        using None l16 by (simp add: IP_Equal_def)
    next
      case (Some x)
      then have lx: "length x = 4" by (rule To4_length)
      have enc: "toProtoAddress a =
          Returns \<lparr>pb_Transport = Address_TCPv4, pb_Address = x,
                   pb_Port = word_of_int (Port a)\<rparr>"
        using Some by (simp add: toProtoAddress_def)
      have dec: "parseProtoAddress \<lparr>pb_Transport = Address_TCPv4, pb_Address = x,
          pb_Port = word_of_int (Port a)\<rparr> = Inr \<lparr>IP = x, Port = Port a, Zone = []\<rparr>"
        using lx p by (simp add: parseProtoAddress_def)
      show ?thesis
      proof (cases "length (IP a) = 4")
        case True
        then have "x = IP a" using Some by (simp add: To4_def)
        then show ?thesis
          using enc dec Some a zone True by (simp add: IP_Equal_def)
      next
        case False
        with len have l16: "length (IP a) = 16" by simp
        note m = To4_mapped_prefix [OF l16 Some]
        show ?thesis
          using enc dec Some zone l16 lx m by (simp add: IP_Equal_def)
      qed
    qed
  qed
  have fails: "(pb_Transport pb = Address_TCPv4 \<and> length (pb_Address pb) \<noteq> 4 \<longrightarrow>
      parseProtoAddress pb = Inl ErrInvalidAddress) \<and>
   (pb_Transport pb = Address_TCPv6 \<and> length (pb_Address pb) \<noteq> 16 \<longrightarrow>
      parseProtoAddress pb = Inl ErrInvalidAddress) \<and>
   (pb_Port pb > 65535 \<longrightarrow> parseProtoAddress pb = Inl ErrInvalidAddress) \<and>
   (pb_Transport pb = Address_Transport_other t \<longrightarrow>
      parseProtoAddress pb = Inl ErrInvalidAddress)"
    by (simp add: parseProtoAddress_def Let_def split: Address_Transport.splits)
  show ?thesis using round fails by blast
qed

theorem proto_address_round_trip_witness:
  "(\<exists>pb. toProtoAddress \<lparr>IP = [10, 0, 0, 5], Port = 26656, Zone = []\<rparr> = Returns pb \<and>
      pb_Transport pb = Address_TCPv4 \<and>
      parseProtoAddress pb = Inr \<lparr>IP = [10, 0, 0, 5], Port = 26656, Zone = []\<rparr>) \<and>
   (\<exists>pb. toProtoAddress (zoned_address\<lparr>Zone := []\<rparr>) = Returns pb \<and>
      pb_Transport pb = Address_TCPv6 \<and>
      parseProtoAddress pb = Inr (zoned_address\<lparr>Zone := []\<rparr>)) \<and>
   parseProtoAddress \<lparr>pb_Transport = Address_TCPv6, pb_Address = [10, 0, 0, 5],
      pb_Port = 26656\<rparr> = Inl ErrInvalidAddress \<and>
   parseProtoAddress \<lparr>pb_Transport = Address_TCPv4, pb_Address = [10, 0, 0, 5],
      pb_Port = 65536\<rparr> = Inl ErrInvalidAddress"
proof -
  have n: "To4 (IP (zoned_address\<lparr>Zone := []\<rparr>)) = None"
    by (simp add: zoned_address_def To4_def isZeros_def)
  have s: "To4 [10, 0, 0, 5] = Some [10, 0, 0, 5]"
    by (simp add: To4_def)
  show ?thesis
    using
      proto_address_round_trip [of "\<lparr>IP = [10, 0, 0, 5], Port = 26656, Zone = []\<rparr>"
        "\<lparr>pb_Transport = Address_TCPv6, pb_Address = [10, 0, 0, 5], pb_Port = 26656\<rparr>" 0]
      proto_address_round_trip [of "zoned_address\<lparr>Zone := []\<rparr>"
        "\<lparr>pb_Transport = Address_TCPv4, pb_Address = [10, 0, 0, 5], pb_Port = 65536\<rparr>" 0]
      n s
    by (auto simp: zoned_address_def)
qed

section \<open>Properties of the routability check\<close>

lemma CIDRMask_bytes_numeral:
  "CIDRMask_bytes n (numeral k) =
     (if n \<ge> 8 then 0xff # CIDRMask_bytes (n - 8) (pred_numeral k)
      else NOT (drop_bit n 0xff) # CIDRMask_bytes 0 (pred_numeral k))"
  by (simp add: numeral_eq_Suc)

lemma replicate_numeral_unfold: "replicate (numeral k) x = x # replicate (pred_numeral k) x"
  by (simp add: numeral_eq_Suc)

lemmas ParseCIDR_eval =
  ParseCIDR_def parseIPv4_def ipv4_field_def parseIPv6_def hex_groups_def xtoi_def dtoi_def
  digit_value_def
  group_bytes_def CIDRMask_def CIDRMask_bytes_numeral IP_Mask_def replicate_numeral_unfold

text \<open>\<open>init\<close> does not panic; the table it builds has these 25 networks.\<close>

lemma init_table: "init = Returns
  [\<lparr>net_IP = [0, 0, 0, 0], net_Mask = [255, 0, 0, 0]\<rparr>,
   \<lparr>net_IP = [10, 0, 0, 0], net_Mask = [255, 0, 0, 0]\<rparr>,
   \<lparr>net_IP = [100, 64, 0, 0], net_Mask = [255, 192, 0, 0]\<rparr>,
   \<lparr>net_IP = [127, 0, 0, 0], net_Mask = [255, 0, 0, 0]\<rparr>,
   \<lparr>net_IP = [169, 254, 0, 0], net_Mask = [255, 255, 0, 0]\<rparr>,
   \<lparr>net_IP = [172, 16, 0, 0], net_Mask = [255, 240, 0, 0]\<rparr>,
   \<lparr>net_IP = [192, 0, 0, 0], net_Mask = [255, 255, 255, 0]\<rparr>,
   \<lparr>net_IP = [192, 0, 0, 0], net_Mask = [255, 255, 255, 248]\<rparr>,
   \<lparr>net_IP = [192, 0, 2, 0], net_Mask = [255, 255, 255, 0]\<rparr>,
   \<lparr>net_IP = [192, 168, 0, 0], net_Mask = [255, 255, 0, 0]\<rparr>,
   \<lparr>net_IP = [192, 18, 0, 0], net_Mask = [255, 254, 0, 0]\<rparr>,
   \<lparr>net_IP = [198, 51, 100, 0], net_Mask = [255, 255, 255, 0]\<rparr>,
   \<lparr>net_IP = [203, 0, 113, 0], net_Mask = [255, 255, 255, 0]\<rparr>,
   \<lparr>net_IP = [240, 0, 0, 0], net_Mask = [240, 0, 0, 0]\<rparr>,
   \<lparr>net_IP = [255, 255, 255, 255], net_Mask = [255, 255, 255, 255]\<rparr>,
   \<lparr>net_IP = [0, 0, 0, 0, 0, 0, 0, 0, 0, 0, 0, 0, 0, 0, 0, 1],
      net_Mask = [255, 255, 255, 255, 255, 255, 255, 255,
                  255, 255, 255, 255, 255, 255, 255, 255]\<rparr>,
   \<lparr>net_IP = [0, 0, 0, 0, 0, 0, 0, 0, 0, 0, 0, 0, 0, 0, 0, 0],
      net_Mask = [255, 255, 255, 255, 255, 255, 255, 255,
                  255, 255, 255, 255, 255, 255, 255, 255]\<rparr>,
   \<lparr>net_IP = [1, 0, 0, 0, 0, 0, 0, 0, 0, 0, 0, 0, 0, 0, 0, 0],
      net_Mask = [255, 255, 255, 255, 255, 255, 255, 255, 0, 0, 0, 0, 0, 0, 0, 0]\<rparr>,
   \<lparr>net_IP = [32, 1, 0, 0, 0, 0, 0, 0, 0, 0, 0, 0, 0, 0, 0, 0],
      net_Mask = [255, 255, 255, 255, 0, 0, 0, 0, 0, 0, 0, 0, 0, 0, 0, 0]\<rparr>,
   \<lparr>net_IP = [32, 1, 0, 2, 0, 0, 0, 0, 0, 0, 0, 0, 0, 0, 0, 0],
      net_Mask = [255, 255, 255, 255, 255, 255, 0, 0, 0, 0, 0, 0, 0, 0, 0, 0]\<rparr>,
   \<lparr>net_IP = [32, 1, 13, 184, 0, 0, 0, 0, 0, 0, 0, 0, 0, 0, 0, 0],
      net_Mask = [255, 255, 255, 255, 0, 0, 0, 0, 0, 0, 0, 0, 0, 0, 0, 0]\<rparr>,
   \<lparr>net_IP = [32, 1, 0, 16, 0, 0, 0, 0, 0, 0, 0, 0, 0, 0, 0, 0],
      net_Mask = [255, 255, 255, 240, 0, 0, 0, 0, 0, 0, 0, 0, 0, 0, 0, 0]\<rparr>,
   \<lparr>net_IP = [32, 2, 0, 0, 0, 0, 0, 0, 0, 0, 0, 0, 0, 0, 0, 0],
      net_Mask = [255, 255, 0, 0, 0, 0, 0, 0, 0, 0, 0, 0, 0, 0, 0, 0]\<rparr>,
   \<lparr>net_IP = [252, 0, 0, 0, 0, 0, 0, 0, 0, 0, 0, 0, 0, 0, 0, 0],
      net_Mask = [254, 0, 0, 0, 0, 0, 0, 0, 0, 0, 0, 0, 0, 0, 0, 0]\<rparr>,
   \<lparr>net_IP = [254, 128, 0, 0, 0, 0, 0, 0, 0, 0, 0, 0, 0, 0, 0, 0],
      net_Mask = [255, 192, 0, 0, 0, 0, 0, 0, 0, 0, 0, 0, 0, 0, 0, 0]\<rparr>]"
  by (simp add: init_def reserved_networks_def ParseCIDR_eval)

lemma IsRoutable_list_ex: "IsRoutable nets a = (\<not> list_ex (\<lambda>n. Contains n (IP a)) nets)"
  by (induction nets) simp_all

lemmas Contains_eval =
  Contains_def networkNumberAndMask_def To4_def isZeros_def IPv4_def v4InV6Prefix_def

lemma unroutableNetworks_table: "unroutableNetworks =
  [\<lparr>net_IP = [0, 0, 0, 0], net_Mask = [255, 0, 0, 0]\<rparr>,
   \<lparr>net_IP = [10, 0, 0, 0], net_Mask = [255, 0, 0, 0]\<rparr>,
   \<lparr>net_IP = [100, 64, 0, 0], net_Mask = [255, 192, 0, 0]\<rparr>,
   \<lparr>net_IP = [127, 0, 0, 0], net_Mask = [255, 0, 0, 0]\<rparr>,
   \<lparr>net_IP = [169, 254, 0, 0], net_Mask = [255, 255, 0, 0]\<rparr>,
   \<lparr>net_IP = [172, 16, 0, 0], net_Mask = [255, 240, 0, 0]\<rparr>,
   \<lparr>net_IP = [192, 0, 0, 0], net_Mask = [255, 255, 255, 0]\<rparr>,
   \<lparr>net_IP = [192, 0, 0, 0], net_Mask = [255, 255, 255, 248]\<rparr>,
   \<lparr>net_IP = [192, 0, 2, 0], net_Mask = [255, 255, 255, 0]\<rparr>,
   \<lparr>net_IP = [192, 168, 0, 0], net_Mask = [255, 255, 0, 0]\<rparr>,
   \<lparr>net_IP = [192, 18, 0, 0], net_Mask = [255, 254, 0, 0]\<rparr>,
   \<lparr>net_IP = [198, 51, 100, 0], net_Mask = [255, 255, 255, 0]\<rparr>,
   \<lparr>net_IP = [203, 0, 113, 0], net_Mask = [255, 255, 255, 0]\<rparr>,
   \<lparr>net_IP = [240, 0, 0, 0], net_Mask = [240, 0, 0, 0]\<rparr>,
   \<lparr>net_IP = [255, 255, 255, 255], net_Mask = [255, 255, 255, 255]\<rparr>,
   \<lparr>net_IP = [0, 0, 0, 0, 0, 0, 0, 0, 0, 0, 0, 0, 0, 0, 0, 1],
      net_Mask = [255, 255, 255, 255, 255, 255, 255, 255,
                  255, 255, 255, 255, 255, 255, 255, 255]\<rparr>,
   \<lparr>net_IP = [0, 0, 0, 0, 0, 0, 0, 0, 0, 0, 0, 0, 0, 0, 0, 0],
      net_Mask = [255, 255, 255, 255, 255, 255, 255, 255,
                  255, 255, 255, 255, 255, 255, 255, 255]\<rparr>,
   \<lparr>net_IP = [1, 0, 0, 0, 0, 0, 0, 0, 0, 0, 0, 0, 0, 0, 0, 0],
      net_Mask = [255, 255, 255, 255, 255, 255, 255, 255, 0, 0, 0, 0, 0, 0, 0, 0]\<rparr>,
   \<lparr>net_IP = [32, 1, 0, 0, 0, 0, 0, 0, 0, 0, 0, 0, 0, 0, 0, 0],
      net_Mask = [255, 255, 255, 255, 0, 0, 0, 0, 0, 0, 0, 0, 0, 0, 0, 0]\<rparr>,
   \<lparr>net_IP = [32, 1, 0, 2, 0, 0, 0, 0, 0, 0, 0, 0, 0, 0, 0, 0],
      net_Mask = [255, 255, 255, 255, 255, 255, 0, 0, 0, 0, 0, 0, 0, 0, 0, 0]\<rparr>,
   \<lparr>net_IP = [32, 1, 13, 184, 0, 0, 0, 0, 0, 0, 0, 0, 0, 0, 0, 0],
      net_Mask = [255, 255, 255, 255, 0, 0, 0, 0, 0, 0, 0, 0, 0, 0, 0, 0]\<rparr>,
   \<lparr>net_IP = [32, 1, 0, 16, 0, 0, 0, 0, 0, 0, 0, 0, 0, 0, 0, 0],
      net_Mask = [255, 255, 255, 240, 0, 0, 0, 0, 0, 0, 0, 0, 0, 0, 0, 0]\<rparr>,
   \<lparr>net_IP = [32, 2, 0, 0, 0, 0, 0, 0, 0, 0, 0, 0, 0, 0, 0, 0],
      net_Mask = [255, 255, 0, 0, 0, 0, 0, 0, 0, 0, 0, 0, 0, 0, 0, 0]\<rparr>,
   \<lparr>net_IP = [252, 0, 0, 0, 0, 0, 0, 0, 0, 0, 0, 0, 0, 0, 0, 0],
      net_Mask = [254, 0, 0, 0, 0, 0, 0, 0, 0, 0, 0, 0, 0, 0, 0, 0]\<rparr>,
   \<lparr>net_IP = [254, 128, 0, 0, 0, 0, 0, 0, 0, 0, 0, 0, 0, 0, 0, 0],
      net_Mask = [255, 192, 0, 0, 0, 0, 0, 0, 0, 0, 0, 0, 0, 0, 0, 0]\<rparr>]"
  by (simp add: unroutableNetworks_def init_table)

text \<open>
  With the table that \<open>init\<close> builds, \<open>IsRoutable\<close> is false exactly when one of its
  networks contains the IP of the address. 10.0.0.5 and 192.168.1.1 are unroutable and
  8.8.8.8 is routable, in the 4-byte form as in the 16-byte form of the IP, whatever the
  port and the zone.
\<close>

lemma IsRoutable_examples:
  "init = Returns unroutableNetworks \<and> length unroutableNetworks = 25 \<and>
   (\<forall>a. IsRoutable unroutableNetworks a =
      (\<not> list_ex (\<lambda>n. Contains n (IP a)) unroutableNetworks)) \<and>
   \<not> IsRoutable unroutableNetworks \<lparr>IP = [10, 0, 0, 5], Port = p, Zone = z\<rparr> \<and>
   \<not> IsRoutable unroutableNetworks \<lparr>IP = IPv4 10 0 0 5, Port = p, Zone = z\<rparr> \<and>
   \<not> IsRoutable unroutableNetworks \<lparr>IP = [192, 168, 1, 1], Port = p, Zone = z\<rparr> \<and>
   \<not> IsRoutable unroutableNetworks \<lparr>IP = IPv4 192 168 1 1, Port = p, Zone = z\<rparr> \<and>
   IsRoutable unroutableNetworks \<lparr>IP = [8, 8, 8, 8], Port = p, Zone = z\<rparr> \<and>
   IsRoutable unroutableNetworks \<lparr>IP = IPv4 8 8 8 8, Port = p, Zone = z\<rparr>"
proof -
  have built: "init = Returns unroutableNetworks"
    by (simp add: unroutableNetworks_table init_table)
  have len: "length unroutableNetworks = 25"
    by (simp add: unroutableNetworks_table)
  have e1: "\<not> IsRoutable unroutableNetworks \<lparr>IP = [10, 0, 0, 5], Port = p, Zone = z\<rparr>"
    by (simp add: unroutableNetworks_table Contains_eval)
  have e2: "\<not> IsRoutable unroutableNetworks \<lparr>IP = IPv4 10 0 0 5, Port = p, Zone = z\<rparr>"
    by (simp add: unroutableNetworks_table Contains_eval)
  have e3: "\<not> IsRoutable unroutableNetworks \<lparr>IP = [192, 168, 1, 1], Port = p, Zone = z\<rparr>"
    by (simp add: unroutableNetworks_table Contains_eval)
  have e4: "\<not> IsRoutable unroutableNetworks \<lparr>IP = IPv4 192 168 1 1, Port = p, Zone = z\<rparr>"
    by (simp add: unroutableNetworks_table Contains_eval)
  have e5: "IsRoutable unroutableNetworks \<lparr>IP = [8, 8, 8, 8], Port = p, Zone = z\<rparr>"
    by (simp add: unroutableNetworks_table Contains_eval)
  have e6: "IsRoutable unroutableNetworks \<lparr>IP = IPv4 8 8 8 8, Port = p, Zone = z\<rparr>"
    by (simp add: unroutableNetworks_table Contains_eval)
  show ?thesis
    using built len e1 e2 e3 e4 e5 e6 IsRoutable_list_ex [of unroutableNetworks] by blast
qed

lemma byte_and_255: "(x :: byte) AND 255 = x"
proof -
  have "(255 :: byte) = - 1" by simp
  then show ?thesis by (simp only: and.right_neutral)
qed

lemma containsLoop_conj:
  "containsLoop (a # nn) (b # m) (c # ip) = (a AND b = c AND b \<and> containsLoop nn m ip)"
  by simp

text \<open>
  The IPv4 part of the table in closed form, for an IP of 4 bytes \<open>a.b.c.d\<close>: one
  disjunct for each of the 15 IPv4 entries, in the order of the table.
\<close>

lemma IsRoutable_IPv4_ranges:
  "IsRoutable unroutableNetworks \<lparr>IP = [a, b, c, d], Port = p, Zone = z\<rparr> =
     (\<not> (a = 0 \<or> a = 10 \<or> (a = 100 \<and> b AND 192 = 64) \<or> a = 127 \<or>
         (a = 169 \<and> b = 254) \<or> (a = 172 \<and> b AND 240 = 16) \<or>
         (a = 192 \<and> b = 0 \<and> c = 0) \<or> (a = 192 \<and> b = 0 \<and> c = 0 \<and> d AND 248 = 0) \<or>
         (a = 192 \<and> b = 0 \<and> c = 2) \<or> (a = 192 \<and> b = 168) \<or>
         (a = 192 \<and> b AND 254 = 18) \<or> (a = 198 \<and> b = 51 \<and> c = 100) \<or>
         (a = 203 \<and> b = 0 \<and> c = 113) \<or> a AND 240 = 240 \<or>
         (a = 255 \<and> b = 255 \<and> c = 255 \<and> d = 255)))"
  by (simp add: IsRoutable_list_ex unroutableNetworks_table Contains_eval byte_and_255
      containsLoop_conj del: containsLoop.simps(1))

text \<open>
  The IPv6 entries on three addresses: the documentation prefix 2001:db8::1 and the
  link-local fe80::1 are unroutable, 2001:4860:4860::8888 is routable.
\<close>

lemma IsRoutable_IPv6_examples:
  "\<not> IsRoutable unroutableNetworks
       \<lparr>IP = [0x20, 0x01, 0x0d, 0xb8, 0, 0, 0, 0, 0, 0, 0, 0, 0, 0, 0, 1], Port = p, Zone = z\<rparr> \<and>
   \<not> IsRoutable unroutableNetworks
       \<lparr>IP = [0xfe, 0x80, 0, 0, 0, 0, 0, 0, 0, 0, 0, 0, 0, 0, 0, 1], Port = p, Zone = z\<rparr> \<and>
   IsRoutable unroutableNetworks
       \<lparr>IP = [0x20, 0x01, 0x48, 0x60, 0x48, 0x60, 0, 0, 0, 0, 0, 0, 0, 0, 0x88, 0x88],
        Port = p, Zone = z\<rparr>"
  by (simp add: unroutableNetworks_table Contains_eval)

text \<open>
  C7. The code departs from the claim at one entry of the table. The eleventh entry,
  which the source comments as the benchmarking range of RFC 2544, is \<open>192.18.0.0/15\<close>,
  where that range is \<open>198.18.0.0/15\<close>. So 198.18.0.1, an address of the reserved
  benchmarking range, is classified routable, and 192.18.0.1, which is in no reserved
  range, is classified unroutable, in the 4-byte form as in the 16-byte form of the IP.
  For an IP of 4 bytes \<open>a.b.c.d\<close> the classification is given entry by entry: the
  eleventh disjunct is that of \<open>192.18.0.0/15\<close> and none is that of \<open>198.18.0.0/15\<close>.
\<close>

theorem IsRoutable_benchmarking_range:
  "init = Returns unroutableNetworks \<and>
   reserved_networks ! 10 = ''192.18.0.0/15'' \<and>
   unroutableNetworks ! 10 = \<lparr>net_IP = [192, 18, 0, 0], net_Mask = [255, 254, 0, 0]\<rparr> \<and>
   ParseCIDR RFC2544_benchmarking =
     Inr \<lparr>net_IP = [198, 18, 0, 0], net_Mask = [255, 254, 0, 0]\<rparr> \<and>
   Contains \<lparr>net_IP = [198, 18, 0, 0], net_Mask = [255, 254, 0, 0]\<rparr> [198, 18, 0, 1] \<and>
   IsRoutable unroutableNetworks \<lparr>IP = [198, 18, 0, 1], Port = p, Zone = z\<rparr> \<and>
   IsRoutable unroutableNetworks \<lparr>IP = IPv4 198 18 0 1, Port = p, Zone = z\<rparr> \<and>
   \<not> Contains \<lparr>net_IP = [198, 18, 0, 0], net_Mask = [255, 254, 0, 0]\<rparr> [192, 18, 0, 1] \<and>
   \<not> IsRoutable unroutableNetworks \<lparr>IP = [192, 18, 0, 1], Port = p, Zone = z\<rparr> \<and>
   \<not> IsRoutable unroutableNetworks \<lparr>IP = IPv4 192 18 0 1, Port = p, Zone = z\<rparr> \<and>
   IsRoutable unroutableNetworks \<lparr>IP = [a, b, c, d], Port = p, Zone = z\<rparr> =
     (\<not> (a = 0 \<or> a = 10 \<or> (a = 100 \<and> b AND 192 = 64) \<or> a = 127 \<or>
         (a = 169 \<and> b = 254) \<or> (a = 172 \<and> b AND 240 = 16) \<or>
         (a = 192 \<and> b = 0 \<and> c = 0) \<or> (a = 192 \<and> b = 0 \<and> c = 0 \<and> d AND 248 = 0) \<or>
         (a = 192 \<and> b = 0 \<and> c = 2) \<or> (a = 192 \<and> b = 168) \<or>
         (a = 192 \<and> b AND 254 = 18) \<or> (a = 198 \<and> b = 51 \<and> c = 100) \<or>
         (a = 203 \<and> b = 0 \<and> c = 113) \<or> a AND 240 = 240 \<or>
         (a = 255 \<and> b = 255 \<and> c = 255 \<and> d = 255)))"
proof -
  have built: "init = Returns unroutableNetworks"
    by (simp add: unroutableNetworks_table init_table)
  have entry: "reserved_networks ! 10 = ''192.18.0.0/15''"
    by (simp add: reserved_networks_def)
  have net: "unroutableNetworks ! 10 = \<lparr>net_IP = [192, 18, 0, 0], net_Mask = [255, 254, 0, 0]\<rparr>"
    by (simp add: unroutableNetworks_table)
  have rfc: "ParseCIDR RFC2544_benchmarking =
      Inr \<lparr>net_IP = [198, 18, 0, 0], net_Mask = [255, 254, 0, 0]\<rparr>"
    by (simp add: RFC2544_benchmarking_def ParseCIDR_eval)
  have inside: "Contains \<lparr>net_IP = [198, 18, 0, 0], net_Mask = [255, 254, 0, 0]\<rparr> [198, 18, 0, 1]"
    and outside:
      "\<not> Contains \<lparr>net_IP = [198, 18, 0, 0], net_Mask = [255, 254, 0, 0]\<rparr> [192, 18, 0, 1]"
    by (simp_all add: Contains_eval)
  have r1: "IsRoutable unroutableNetworks \<lparr>IP = [198, 18, 0, 1], Port = p, Zone = z\<rparr>"
    by (simp add: unroutableNetworks_table Contains_eval)
  have r2: "IsRoutable unroutableNetworks \<lparr>IP = IPv4 198 18 0 1, Port = p, Zone = z\<rparr>"
    by (simp add: unroutableNetworks_table Contains_eval)
  have u1: "\<not> IsRoutable unroutableNetworks \<lparr>IP = [192, 18, 0, 1], Port = p, Zone = z\<rparr>"
    by (simp add: unroutableNetworks_table Contains_eval)
  have u2: "\<not> IsRoutable unroutableNetworks \<lparr>IP = IPv4 192 18 0 1, Port = p, Zone = z\<rparr>"
    by (simp add: unroutableNetworks_table Contains_eval)
  show ?thesis
    using built entry net rfc inside outside r1 r2 u1 u2
      IsRoutable_IPv4_ranges [of a b c d p z]
    by blast
qed

end
